theory Spec2Isabelle
  imports Complex_Main
begin

section \<open>Rain-or-not: the station filter, the cache, the acquisition policy and the prediction\<close>

text \<open>
  A shallow embedding of the core of the repository: \<^verbatim>\<open>utils/location.ts\<close>,
  \<^verbatim>\<open>services/weatherService.ts\<close>, \<^verbatim>\<open>workers/distanceCalculator.ts\<close> and
  \<^verbatim>\<open>utils/threadedDistanceCalculator.ts\<close>.

  Numbers. A JavaScript \<^verbatim>\<open>number\<close> is modelled by a \<^typ>\<open>real\<close>, and a number that the
  code only ever uses as an integer (an epoch time in milliseconds, a station count, a
  rounded minute) by an \<^typ>\<open>int\<close>. This is the exact-arithmetic reading of the code:
  the rounding error of IEEE doubles, \<^verbatim>\<open>NaN\<close> and the infinities are not represented.
  The exception is the test of the computed time to arrive against 15 minutes in the
  prediction, whose outcome at the boundary is decided by the rounding: the loop body that
  computes and tests that time is embedded a second time over binary64 numbers (the
  functions whose names end in \<open>64\<close>).

  Effects. The browser storage, the clock and the requests sent to the feeds are fields of
  an explicit state; what the feeds and the workers answer is a parameter. A thrown error
  is the left injection of a sum. Console output and the timing helper \<^verbatim>\<open>logTiming\<close>
  do not influence any result and are left out, as are the request headers.
\<close>

subsection \<open>JavaScript primitives\<close>

text \<open>\<^verbatim>\<open>x % y\<close> on numbers: the remainder has the sign of the dividend.\<close>

definition js_trunc :: "real \<Rightarrow> int" where
  "js_trunc x = (if 0 \<le> x then \<lfloor>x\<rfloor> else \<lceil>x\<rceil>)"

definition js_rem :: "real \<Rightarrow> real \<Rightarrow> real" where
  "js_rem x y = x - y * of_int (js_trunc (x / y))"

text \<open>\<^verbatim>\<open>x % y\<close> on integer values.\<close>

definition js_rem_int :: "int \<Rightarrow> int \<Rightarrow> int" where
  "js_rem_int a b = sgn a * (\<bar>a\<bar> mod \<bar>b\<bar>)"

text \<open>\<^verbatim>\<open>Math.round\<close> rounds to the nearest integer, a half towards plus infinity.\<close>

definition Math_round :: "real \<Rightarrow> int" where
  "Math_round x = \<lfloor>x + 1 / 2\<rfloor>"

definition Math_atan2 :: "real \<Rightarrow> real \<Rightarrow> real" where
  "Math_atan2 y x =
     (if 0 < x then arctan (y / x)
      else if x < 0 then (if 0 \<le> y then arctan (y / x) + pi else arctan (y / x) - pi)
      else if 0 < y then pi / 2
      else if y < 0 then - (pi / 2)
      else 0)"

text \<open>
  \<^verbatim>\<open>Array.prototype.sort(cmp)\<close> is a stable sort; \<open>cmp a b \<le> 0\<close> keeps \<open>a\<close> before \<open>b\<close>.
  It is modelled by insertion from the right, which places an element before the first
  element of the sorted rest that it does not exceed, so elements that compare equal keep
  their order.
\<close>

fun insert_by :: "('a \<Rightarrow> 'a \<Rightarrow> real) \<Rightarrow> 'a \<Rightarrow> 'a list \<Rightarrow> 'a list" where
  "insert_by cmp x [] = [x]"
| "insert_by cmp x (y # ys) = (if cmp x y \<le> 0 then x # y # ys else y # insert_by cmp x ys)"

definition Array_sort :: "('a \<Rightarrow> 'a \<Rightarrow> real) \<Rightarrow> 'a list \<Rightarrow> 'a list" where
  "Array_sort cmp xs = foldr (insert_by cmp) xs []"

text \<open>
  \<^verbatim>\<open>Array.prototype.slice(start, fin)\<close>: a negative index counts from the end, and both
  indices are clamped to the array.
\<close>

definition Array_slice :: "'a list \<Rightarrow> int \<Rightarrow> int \<Rightarrow> 'a list" where
  "Array_slice xs start fin =
     (let n = int (length xs);
          k = (if start < 0 then max (n + start) 0 else min start n);
          e = (if fin < 0 then max (n + fin) 0 else min fin n)
      in take (nat (e - k)) (drop (nat k) xs))"

text \<open>
  A \<^verbatim>\<open>Record<string, T>\<close> and a \<^verbatim>\<open>Map<string, T>\<close> are association lists in insertion
  order with one entry per key: an assignment to a present key replaces the value in
  place, an assignment to a new key appends.
\<close>

fun assign :: "'k \<Rightarrow> 'v \<Rightarrow> ('k \<times> 'v) list \<Rightarrow> ('k \<times> 'v) list" where
  "assign k v [] = [(k, v)]"
| "assign k v (p # ps) = (if fst p = k then (k, v) # ps else p # assign k v ps)"

text \<open>The decimal text of an integer, as a template literal prints it.\<close>

fun digits :: "nat \<Rightarrow> string" where
  "digits n =
     (if n < 10 then [''0123456789'' ! n]
      else digits (n div 10) @ [''0123456789'' ! (n mod 10)])"

definition Number_toString :: "int \<Rightarrow> string" where
  "Number_toString i = (if i < 0 then ''-'' @ digits (nat (- i)) else digits (nat i))"

subsection \<open>The data model (\<^verbatim>\<open>types.ts\<close>)\<close>

record UserLocation =
  latitude :: real
  longitude :: real

text \<open>
  The field \<^verbatim>\<open>id\<close> of a station is \<open>sid\<close> here. A station as a feed delivers it may
  carry its position under \<^verbatim>\<open>labelLocation\<close> or under \<^verbatim>\<open>location\<close>.
\<close>

record Station =
  sid :: string
  deviceId :: string
  name :: string
  labelLocation :: "UserLocation option"

record RawStation = Station +
  location :: "UserLocation option"

record ReadingDataItem =
  stationId :: string
  itemValue :: real

record Reading =
  readingTimestamp :: string
  items :: "ReadingDataItem list"

record ApiData =
  apiStations :: "RawStation list"
  readings :: "Reading list"
  readingType :: string
  readingUnit :: string
  paginationToken :: "string option"

record GenericApiResponse =
  code :: int
  errorMsg :: "string option"
  data :: "ApiData option"

record WindVector =
  velocityX :: real
  velocityY :: real
  magnitude :: real
  directionDeg :: real

record WeatherData =
  stations :: "Station list"
  rainfallMap :: "(string \<times> real) list"
  windSpeedMap :: "(string \<times> real) list"
  windDirectionMap :: "(string \<times> real) list"
  windVectors :: "(string \<times> WindVector) list"
  significantRainDetected :: bool
  timestamp :: string
  rainfallUnit :: string
  windSpeedUnit :: string
  windDirectionUnit :: string

record CachedData =
  expiry :: int
  cached :: WeatherData

record WeatherConfig =
  radiusKm :: real
  maxStations :: int
  minStations :: int

subsection \<open>GeoMath (\<^verbatim>\<open>utils/location.ts\<close>)\<close>

definition deg2rad :: "real \<Rightarrow> real" where
  "deg2rad deg = deg * (pi / 180)"

definition directions :: "string list" where
  "directions = [''N'', ''NNE'', ''NE'', ''ENE'', ''E'', ''ESE'', ''SE'', ''SSE'',
                 ''S'', ''SSW'', ''SW'', ''WSW'', ''W'', ''WNW'', ''NW'', ''NNW'']"

text \<open>
  \<^verbatim>\<open>directions[index]\<close> is \<^verbatim>\<open>undefined\<close> when the index is not an index of the array;
  the result is then \<open>None\<close>.
\<close>

definition convertDegreesToCardinal :: "real \<Rightarrow> string option" where
  "convertDegreesToCardinal deg =
     (let index = js_rem_int (Math_round (js_rem deg 360 / 22.5)) 16
      in if 0 \<le> index \<and> index < int (length directions)
         then Some (directions ! nat index) else None)"

definition toCartesian :: "UserLocation \<Rightarrow> UserLocation \<Rightarrow> real \<times> real" where
  "toCartesian loc reference =
     (let R = 6371;
          latDiff = deg2rad (latitude loc - latitude reference);
          lonDiff = deg2rad (longitude loc - longitude reference);
          x = R * lonDiff * cos (deg2rad (latitude reference));
          y = R * latDiff
      in (x, y))"

subsection \<open>PredictionEngine (\<^verbatim>\<open>calculateRainPrediction\<close>)\<close>

record Threat =
  stationName :: string
  timeToReach :: int
  distance :: real

definition PREDICTION_TIME_MINUTES :: real where
  "PREDICTION_TIME_MINUTES = 15"

definition SIGNIFICANT_RAIN_THRESHOLD_MM :: real where
  "SIGNIFICANT_RAIN_THRESHOLD_MM = 3"

text \<open>The candidates: a position, rainfall of at least 3 mm, and a wind vector that moves.\<close>

definition isRainyStation :: "WeatherData \<Rightarrow> Station \<Rightarrow> bool" where
  "isRainyStation weatherData station =
     (labelLocation station \<noteq> None \<and>
      (case map_of (rainfallMap weatherData) (sid station) of None \<Rightarrow> 0 | Some v \<Rightarrow> v)
        \<ge> SIGNIFICANT_RAIN_THRESHOLD_MM \<and>
      (case map_of (windVectors weatherData) (sid station) of
         None \<Rightarrow> False
       | Some w \<Rightarrow> magnitude w > 0))"

definition rainyStations :: "WeatherData \<Rightarrow> Station list" where
  "rainyStations weatherData = filter (isRainyStation weatherData) (stations weatherData)"

text \<open>The geometry of one candidate, as the loop body computes it.\<close>

definition stationToUser :: "UserLocation \<Rightarrow> UserLocation \<Rightarrow> real \<times> real" where
  "stationToUser userLocation stationLoc =
     (let stationCartesian = toCartesian stationLoc userLocation
      in (0 - fst stationCartesian, 0 - snd stationCartesian))"

definition distanceToUser :: "UserLocation \<Rightarrow> UserLocation \<Rightarrow> real" where
  "distanceToUser userLocation stationLoc =
     (let v = stationToUser userLocation stationLoc
      in sqrt (fst v * fst v + snd v * snd v))"

definition dotProduct :: "UserLocation \<Rightarrow> UserLocation \<Rightarrow> WindVector \<Rightarrow> real" where
  "dotProduct userLocation stationLoc windVector =
     (let v = stationToUser userLocation stationLoc
      in velocityX windVector * fst v + velocityY windVector * snd v)"

definition effectiveVelocity :: "UserLocation \<Rightarrow> UserLocation \<Rightarrow> WindVector \<Rightarrow> real" where
  "effectiveVelocity userLocation stationLoc windVector =
     dotProduct userLocation stationLoc windVector / distanceToUser userLocation stationLoc"

text \<open>The time to arrive in minutes, before it is rounded.\<close>

definition timeToArrive :: "UserLocation \<Rightarrow> UserLocation \<Rightarrow> WindVector \<Rightarrow> real" where
  "timeToArrive userLocation stationLoc windVector =
     distanceToUser userLocation stationLoc
       / effectiveVelocity userLocation stationLoc windVector * 60"

text \<open>
  One pass of the loop over the candidates: the threat that the pass pushes, if any. The
  candidates have a position and a wind vector by \<open>isRainyStation\<close>, so the two \<open>None\<close>
  cases of the lookups are not reached from \<open>calculateRainPrediction\<close>.
\<close>

definition stationThreat :: "UserLocation \<Rightarrow> WeatherData \<Rightarrow> Station \<Rightarrow> Threat option" where
  "stationThreat userLocation weatherData station =
     (case (labelLocation station, map_of (windVectors weatherData) (sid station)) of
        (Some stationLoc, Some windVector) \<Rightarrow>
          if dotProduct userLocation stationLoc windVector > 0 then
            if effectiveVelocity userLocation stationLoc windVector > 0 then
              if timeToArrive userLocation stationLoc windVector \<le> PREDICTION_TIME_MINUTES
              then Some \<lparr>stationName = name station,
                         timeToReach = Math_round (timeToArrive userLocation stationLoc windVector),
                         distance = distanceToUser userLocation stationLoc\<rparr>
              else None
            else None
          else None
      | _ \<Rightarrow> None)"

fun threatLoop :: "UserLocation \<Rightarrow> WeatherData \<Rightarrow> Station list \<Rightarrow> Threat list \<Rightarrow> Threat list" where
  "threatLoop userLocation weatherData [] threats = threats"
| "threatLoop userLocation weatherData (station # rest) threats =
     threatLoop userLocation weatherData rest
       (case stationThreat userLocation weatherData station of
          None \<Rightarrow> threats
        | Some t \<Rightarrow> threats @ [t])"

text \<open>
  The comparator of the final sort,
  \<^verbatim>\<open>a.timeToReach - b.timeToReach || a.distance - b.distance\<close>.
\<close>

definition threatOrder :: "Threat \<Rightarrow> Threat \<Rightarrow> real" where
  "threatOrder a b =
     (if timeToReach a - timeToReach b \<noteq> 0 then of_int (timeToReach a - timeToReach b)
      else distance a - distance b)"

definition threatMessage :: "Threat \<Rightarrow> string" where
  "threatMessage closestThreat =
     (if timeToReach closestThreat \<le> 5
      then ''Rain from '' @ stationName closestThreat
             @ '' is very close and could arrive within ''
             @ Number_toString (timeToReach closestThreat) @ '' minutes. Take cover soon!''
      else ''Rain from '' @ stationName closestThreat
             @ '' is moving your way and could arrive in about ''
             @ Number_toString (timeToReach closestThreat) @ '' minutes.'')"

definition calculateRainPrediction :: "UserLocation \<Rightarrow> WeatherData \<Rightarrow> string" where
  "calculateRainPrediction userLocation weatherData =
     (if \<not> significantRainDetected weatherData
      then ''No significant rainfall (>=3mm) detected at any weather station. You should stay dry.''
      else if length (rainyStations weatherData) = 0
      then ''Significant rain detected elsewhere.''
      else
        let threats = threatLoop userLocation weatherData (rainyStations weatherData) []
        in if length threats > 0
           then threatMessage (hd (Array_sort threatOrder threats))
           else ''Significant rain is detected, but current wind patterns suggest it is not heading towards your location within the next 15 minutes.'')"

subsection \<open>Double-precision arithmetic\<close>

















subsection \<open>PredictionEngine in double precision (the loop body of \<^verbatim>\<open>calculateRainPrediction\<close>)\<close>










subsection \<open>StationFilter (\<^verbatim>\<open>filterNearbyStations\<close>)\<close>

definition DEFAULT_CONFIG :: WeatherConfig where
  "DEFAULT_CONFIG = \<lparr>radiusKm = 15, maxStations = 20, minStations = 5\<rparr>"

text \<open>The haversine distance of \<^verbatim>\<open>weatherService.ts\<close>.\<close>

definition calculateDistance :: "real \<Rightarrow> real \<Rightarrow> real \<Rightarrow> real \<Rightarrow> real" where
  "calculateDistance lat1 lon1 lat2 lon2 =
     (let R = 6371;
          dLat = (lat2 - lat1) * pi / 180;
          dLon = (lon2 - lon1) * pi / 180;
          a = sin (dLat / 2) * sin (dLat / 2) +
              cos (lat1 * pi / 180) * cos (lat2 * pi / 180) *
              sin (dLon / 2) * sin (dLon / 2);
          c = 2 * Math_atan2 (sqrt a) (sqrt (1 - a))
      in R * c)"

text \<open>
  The stations that have a position, each with its distance to the user:
  \<^verbatim>\<open>.filter(station => station.labelLocation).map(station => ({station, distance}))\<close>.
\<close>

definition withDistance :: "real \<Rightarrow> real \<Rightarrow> Station list \<Rightarrow> (Station \<times> real) list" where
  "withDistance userLat userLon sts =
     map (\<lambda>station.
            (station,
             calculateDistance userLat userLon
               (latitude (the (labelLocation station)))
               (longitude (the (labelLocation station)))))
         (filter (\<lambda>station. labelLocation station \<noteq> None) sts)"

definition byDistance :: "Station \<times> real \<Rightarrow> Station \<times> real \<Rightarrow> real" where
  "byDistance a b = snd a - snd b"

text \<open>
  The two coordinates are optional parameters; \<^verbatim>\<open>!userLat || !userLon\<close> holds when one
  of them is missing or is the number zero.
\<close>

definition filterNearbyStations ::
  "Station list \<Rightarrow> real option \<Rightarrow> real option \<Rightarrow> WeatherConfig \<Rightarrow> Station list" where
  "filterNearbyStations sts userLat userLon config =
     (case (userLat, userLon) of
        (Some lat, Some lon) \<Rightarrow>
          if lat = 0 \<or> lon = 0 then sts
          else
            let stationsWithDistance =
                  Array_slice
                    (Array_sort byDistance
                       (filter (\<lambda>item. snd item \<le> radiusKm config) (withDistance lat lon sts)))
                    0 (maxStations config);
                nearbyStations = map fst stationsWithDistance
            in if int (length nearbyStations) < minStations config
                  \<and> int (length sts) \<ge> minStations config
               then
                 let allStationsWithDistance =
                       Array_slice (Array_sort byDistance (withDistance lat lon sts))
                         0 (minStations config)
                 in map fst allStationsWithDistance
               else nearbyStations
      | _ \<Rightarrow> sts)"

subsection \<open>TimeAlignedCache (\<^verbatim>\<open>getNext5MinMark\<close>, \<^verbatim>\<open>getCachedData\<close>, \<^verbatim>\<open>setCachedData\<close>)\<close>

text \<open>
  A \<^verbatim>\<open>Date\<close> is its epoch time in milliseconds. The local time zone is a fixed offset of
  \<open>tz\<close> whole minutes east of UTC, so the local seconds and milliseconds are those of UTC.
\<close>

definition getMinutes :: "int \<Rightarrow> int \<Rightarrow> int" where
  "getMinutes tz t = (t div 60000 + tz) mod 60"

definition setSeconds :: "int \<Rightarrow> int \<Rightarrow> int" where
  "setSeconds s t = t - (t div 1000 mod 60) * 1000 + s * 1000"

definition setMilliseconds :: "int \<Rightarrow> int \<Rightarrow> int" where
  "setMilliseconds ms t = t - t mod 1000 + ms"

definition getNext5MinMark :: "int \<Rightarrow> int \<Rightarrow> int" where
  "getNext5MinMark tz now =
     (let minutes = getMinutes tz now;
          minutesToAdd = 5 - minutes mod 5;
          expiry0 = now + minutesToAdd * 60 * 1000
      in setMilliseconds 0 (setSeconds 0 expiry0))"

text \<open>
  \<^verbatim>\<open>localStorage\<close> holds the two items of the service, under \<^verbatim>\<open>weatherDataCache\<close> and
  \<^verbatim>\<open>windVectorsCache\<close>. An item is text: either it parses to the object that was
  written, or \<^verbatim>\<open>JSON.parse\<close> throws.
\<close>

datatype 'a stored = Unparsable | Stored 'a

record VectorCache =
  vectorsExpiry :: int
  vectors :: "(string \<times> WindVector) list"

record LocalStorage =
  weatherDataCache :: "CachedData stored option"
  windVectorsCache :: "VectorCache stored option"

definition getCachedData :: "int \<Rightarrow> LocalStorage \<Rightarrow> WeatherData option \<times> LocalStorage" where
  "getCachedData now st =
     (case weatherDataCache st of
        None \<Rightarrow> (None, st)
      | Some Unparsable \<Rightarrow> (None, st\<lparr>weatherDataCache := None\<rparr>)
      | Some (Stored item) \<Rightarrow>
          if now > expiry item then (None, st\<lparr>weatherDataCache := None\<rparr>)
          else (Some (cached item), st))"

definition setCachedData :: "int \<Rightarrow> int \<Rightarrow> WeatherData \<Rightarrow> LocalStorage \<Rightarrow> LocalStorage" where
  "setCachedData tz now d st =
     st\<lparr>weatherDataCache := Some (Stored \<lparr>expiry = getNext5MinMark tz now, cached = d\<rparr>)\<rparr>"

definition saveWindVectors ::
  "int \<Rightarrow> int \<Rightarrow> (string \<times> WindVector) list \<Rightarrow> LocalStorage \<Rightarrow> LocalStorage" where
  "saveWindVectors tz now wv st =
     st\<lparr>windVectorsCache :=
          Some (Stored \<lparr>vectorsExpiry = getNext5MinMark tz now, vectors = wv\<rparr>)\<rparr>"

subsection \<open>VectorModel (\<^verbatim>\<open>convertToWindVector\<close>)\<close>

definition convertToWindVector :: "real \<Rightarrow> real \<Rightarrow> WindVector" where
  "convertToWindVector speedKnots dirDeg =
     (let speedKmh = speedKnots * 1.852;
          travelDirectionRad = js_rem (dirDeg + 180) 360 * (pi / 180);
          vX = speedKmh * cos travelDirectionRad;
          vY = speedKmh * sin travelDirectionRad
      in \<lparr>velocityX = vX, velocityY = vY, magnitude = speedKmh,
          directionDeg = js_rem (dirDeg + 180) 360\<rparr>)"

subsection \<open>AcquisitionPolicy (\<^verbatim>\<open>fetchWeatherData\<close>)\<close>

text \<open>
  The three feeds are the keys of \<^verbatim>\<open>API_URLS\<close>. A request
  \<^verbatim>\<open>fetch(url).then(res => res.json())\<close> either rejects with the value thrown (an
  \<^verbatim>\<open>Error\<close> with its message, or some other value) or resolves to a response envelope.
\<close>

datatype endpoint = rainfall | wind_speed | wind_direction

datatype thrown = JsError string | NonError

datatype fetch_outcome = Rejected thrown | Resolved GenericApiResponse

text \<open>
  What the service does not control: the time zone, what each feed answers in this cycle
  and after how many milliseconds, and the text \<^verbatim>\<open>toISOString\<close> gives for a time.
\<close>

record Env =
  tzOffsetMinutes :: int
  upstream :: "endpoint \<Rightarrow> fetch_outcome"
  latency :: "endpoint \<Rightarrow> nat"
  toISOString :: "int \<Rightarrow> string"

text \<open>What a cycle changes: the storage, the clock, and the log of the requests sent.\<close>

record World =
  localStorage :: LocalStorage
  clock :: int
  requests :: "endpoint list"

definition fetch :: "Env \<Rightarrow> endpoint \<Rightarrow> World \<Rightarrow> fetch_outcome \<times> World" where
  "fetch env url w =
     (upstream env url,
      w\<lparr>clock := clock w + int (latency env url), requests := requests w @ [url]\<rparr>)"

text \<open>
  \<^verbatim>\<open>Promise.all\<close> over the two wind requests: both are sent; the result is the pair of
  responses when both resolve, and otherwise the rejection that comes first (the wind-speed
  one when both reject after the same time).
\<close>

definition fetchWind ::
  "Env \<Rightarrow> World \<Rightarrow> (thrown + GenericApiResponse \<times> GenericApiResponse) \<times> World" where
  "fetchWind env w =
     (let sent = w\<lparr>requests := requests w @ [wind_speed, wind_direction]\<rparr>;
          ls = int (latency env wind_speed);
          ld = int (latency env wind_direction)
      in case (upstream env wind_speed, upstream env wind_direction) of
           (Resolved a, Resolved b) \<Rightarrow> (Inr (a, b), sent\<lparr>clock := clock w + max ls ld\<rparr>)
         | (Rejected e, Resolved b) \<Rightarrow> (Inl e, sent\<lparr>clock := clock w + ls\<rparr>)
         | (Resolved a, Rejected e) \<Rightarrow> (Inl e, sent\<lparr>clock := clock w + ld\<rparr>)
         | (Rejected e1, Rejected e2) \<Rightarrow>
             if ls \<le> ld then (Inl e1, sent\<lparr>clock := clock w + ls\<rparr>)
             else (Inl e2, sent\<lparr>clock := clock w + ld\<rparr>))"

text \<open>\<^verbatim>\<open>s || d\<close> on text: a missing or empty text gives the default.\<close>

definition orElse :: "string option \<Rightarrow> string \<Rightarrow> string" where
  "orElse s d = (case s of None \<Rightarrow> d | Some v \<Rightarrow> if v = [] then d else v)"

text \<open>
  \<^verbatim>\<open>response.code !== 0 || !response.data\<close> fails the cycle with the error
  \<^verbatim>\<open>new Error(response.errorMsg || fallback)\<close>; otherwise the data is used.
\<close>

definition checked :: "GenericApiResponse \<Rightarrow> string \<Rightarrow> thrown + ApiData" where
  "checked response fallback =
     (if code response \<noteq> 0 then Inl (JsError (orElse (errorMsg response) fallback))
      else case data response of
             None \<Rightarrow> Inl (JsError (orElse (errorMsg response) fallback))
           | Some d \<Rightarrow> Inr d)"

text \<open>The map of the latest reading: only \<^verbatim>\<open>readings[0]\<close> is consulted.\<close>

definition latestReadingMap :: "Reading list \<Rightarrow> (string \<times> real) list" where
  "latestReadingMap rs =
     (case rs of
        [] \<Rightarrow> []
      | latest # _ \<Rightarrow>
          foldl (\<lambda>m item. assign (stationId item) (itemValue item) m) [] (items latest))"

text \<open>\<^verbatim>\<open>Object.values(rainfallMap).some(value => value >= 1)\<close>.\<close>

definition significantRain :: "(string \<times> real) list \<Rightarrow> bool" where
  "significantRain rainMap = list_ex (\<lambda>v. v \<ge> 1) (map snd rainMap)"

definition buildWindVectors ::
  "(string \<times> real) list \<Rightarrow> (string \<times> real) list \<Rightarrow> (string \<times> WindVector) list" where
  "buildWindVectors speedMap dirMap =
     foldl (\<lambda>wv stId.
              case (map_of speedMap stId, map_of dirMap stId) of
                (Some speed, Some direction) \<Rightarrow>
                  if speed > 0 then assign stId (convertToWindVector speed direction) wv else wv
              | _ \<Rightarrow> wv)
           [] (map fst speedMap)"

text \<open>
  The station map: the first feed that names a station creates it, and a later one only
  fills in a position that is still missing.
\<close>

definition mergeStation :: "(string \<times> Station) list \<Rightarrow> RawStation \<Rightarrow> (string \<times> Station) list" where
  "mergeStation stationMap rawStation =
     (let locationData =
            (case labelLocation rawStation of Some l \<Rightarrow> Some l | None \<Rightarrow> location rawStation)
      in case map_of stationMap (sid rawStation) of
           Some existingStation \<Rightarrow>
             if labelLocation existingStation = None \<and> locationData \<noteq> None
             then assign (sid rawStation) (existingStation\<lparr>labelLocation := locationData\<rparr>)
                    stationMap
             else stationMap
         | None \<Rightarrow>
             assign (sid rawStation)
               \<lparr>sid = sid rawStation, deviceId = deviceId rawStation, name = name rawStation,
                labelLocation = locationData\<rparr>
               stationMap)"

definition mergeStations :: "ApiData list \<Rightarrow> (string \<times> Station) list" where
  "mergeStations responses =
     foldl (\<lambda>stationMap res. foldl mergeStation stationMap (apiStations res)) [] responses"

text \<open>The entries of a map whose key is the id of one of the nearby stations.\<close>

definition onlyNearby :: "string list \<Rightarrow> (string \<times> 'v) list \<Rightarrow> (string \<times> 'v) list" where
  "onlyNearby nearbyStationIds m = filter (\<lambda>entry. fst entry \<in> set nearbyStationIds) m"

definition combine ::
  "UserLocation option \<Rightarrow> WeatherConfig \<Rightarrow> string \<Rightarrow> ApiData \<Rightarrow> ApiData option
     \<Rightarrow> ApiData option \<Rightarrow> (string \<times> real) list \<Rightarrow> (string \<times> real) list
     \<Rightarrow> (string \<times> real) list \<Rightarrow> (string \<times> WindVector) list \<Rightarrow> bool \<Rightarrow> WeatherData" where
  "combine userLocation config nowIso rainData speedData dirData
     rainMap speedMap dirMap vecs significant =
     (let responses =
            rainData # (case speedData of None \<Rightarrow> [] | Some d \<Rightarrow> [d])
                     @ (case dirData of None \<Rightarrow> [] | Some d \<Rightarrow> [d]);
          allStations = map snd (mergeStations responses);
          nearbyStations =
            (case userLocation of
               Some l \<Rightarrow>
                 filterNearbyStations allStations (Some (latitude l)) (Some (longitude l)) config
             | None \<Rightarrow> allStations);
          nearbyStationIds = map sid nearbyStations
      in \<lparr>stations = nearbyStations,
          rainfallMap =
            (if userLocation \<noteq> None then onlyNearby nearbyStationIds rainMap else rainMap),
          windSpeedMap =
            (if userLocation \<noteq> None then onlyNearby nearbyStationIds speedMap else speedMap),
          windDirectionMap =
            (if userLocation \<noteq> None then onlyNearby nearbyStationIds dirMap else dirMap),
          windVectors =
            (if userLocation \<noteq> None then onlyNearby nearbyStationIds vecs else vecs),
          significantRainDetected = significant,
          timestamp =
            orElse (case readings rainData of [] \<Rightarrow> None | r # _ \<Rightarrow> Some (readingTimestamp r))
              nowIso,
          rainfallUnit = readingUnit rainData,
          windSpeedUnit = orElse (map_option readingUnit speedData) ''knots'',
          windDirectionUnit = orElse (map_option readingUnit dirData) ''degrees''\<rparr>)"

text \<open>The end of a successful cycle: the snapshot is combined, cached and returned.\<close>

definition finish ::
  "UserLocation option \<Rightarrow> WeatherConfig \<Rightarrow> Env \<Rightarrow> ApiData \<Rightarrow> ApiData option
     \<Rightarrow> ApiData option \<Rightarrow> (string \<times> real) list \<Rightarrow> (string \<times> real) list
     \<Rightarrow> (string \<times> real) list \<Rightarrow> (string \<times> WindVector) list \<Rightarrow> bool \<Rightarrow> World
     \<Rightarrow> (thrown + WeatherData) \<times> World" where
  "finish userLocation config env rainData speedData dirData
     rainMap speedMap dirMap vecs significant w =
     (let combinedData =
            combine userLocation config (toISOString env (clock w)) rainData speedData dirData
              rainMap speedMap dirMap vecs significant
      in (Inr combinedData,
          w\<lparr>localStorage :=
              setCachedData (tzOffsetMinutes env) (clock w) combinedData (localStorage w)\<rparr>))"

text \<open>The body of the \<^verbatim>\<open>try\<close> block; \<open>Inl\<close> is the value thrown.\<close>

definition acquire ::
  "UserLocation option \<Rightarrow> WeatherConfig \<Rightarrow> Env \<Rightarrow> World \<Rightarrow> (thrown + WeatherData) \<times> World" where
  "acquire userLocation config env w0 =
     (case fetch env rainfall w0 of
        (Rejected e, w1) \<Rightarrow> (Inl e, w1)
      | (Resolved rainResponse, w1) \<Rightarrow>
          (case checked rainResponse ''Rainfall API returned an error without a message.'' of
             Inl e \<Rightarrow> (Inl e, w1)
           | Inr rainData \<Rightarrow>
               let rainMap = latestReadingMap (readings rainData);
                   significant = significantRain rainMap
               in if significant then
                    (case fetchWind env w1 of
                       (Inl e, w2) \<Rightarrow> (Inl e, w2)
                     | (Inr (windSpeedResponse, windDirResponse), w2) \<Rightarrow>
                         (case checked windSpeedResponse
                                 ''Wind speed API returned an error without a message.'' of
                            Inl e \<Rightarrow> (Inl e, w2)
                          | Inr speedData \<Rightarrow>
                              (case checked windDirResponse
                                      ''Wind direction API returned an error without a message.'' of
                                 Inl e \<Rightarrow> (Inl e, w2)
                               | Inr dirData \<Rightarrow>
                                   let speedMap = latestReadingMap (readings speedData);
                                       dirMap = latestReadingMap (readings dirData);
                                       vecs = buildWindVectors speedMap dirMap;
                                       w3 = w2\<lparr>localStorage :=
                                                 saveWindVectors (tzOffsetMinutes env) (clock w2)
                                                   vecs (localStorage w2)\<rparr>
                                   in finish userLocation config env rainData (Some speedData)
                                        (Some dirData) rainMap speedMap dirMap vecs significant
                                        w3)))
                  else finish userLocation config env rainData None None
                         rainMap [] [] [] significant w1))"

text \<open>
  \<^verbatim>\<open>fetchWeatherData\<close>: the cache is read unless a refresh is forced; on a miss the cycle
  runs, and what it throws is thrown again as one error, represented by its message.
\<close>

definition fetchWeatherData ::
  "bool \<Rightarrow> UserLocation option \<Rightarrow> WeatherConfig \<Rightarrow> Env \<Rightarrow> World
     \<Rightarrow> (string + WeatherData) \<times> World" where
  "fetchWeatherData forceRefresh userLocation config env w =
     (let (cachedData, w0) =
            (if \<not> forceRefresh
             then (case getCachedData (clock w) (localStorage w) of
                     (hit, st) \<Rightarrow> (hit, w\<lparr>localStorage := st\<rparr>))
             else (None, w))
      in case cachedData of
           Some d \<Rightarrow> (Inr d, w0)
         | None \<Rightarrow>
             (case acquire userLocation config env w0 of
                (Inr combinedData, w1) \<Rightarrow> (Inr combinedData, w1)
              | (Inl (JsError message), w1) \<Rightarrow>
                  (Inl (''Could not retrieve weather data: '' @ message), w1)
              | (Inl NonError, w1) \<Rightarrow>
                  (Inl ''An unknown error occurred while fetching weather data.'', w1)))"

subsection \<open>ParallelDistanceEngine (\<^verbatim>\<open>distanceCalculator.ts\<close>, \<^verbatim>\<open>threadedDistanceCalculator.ts\<close>)\<close>













subsection \<open>Sample data\<close>

text \<open>Concrete stations, a snapshot and a storage, used to instantiate the theorems below.\<close>

definition sampleStation :: "string \<Rightarrow> real \<Rightarrow> real \<Rightarrow> Station" where
  "sampleStation i lat lon =
     \<lparr>sid = i, deviceId = i, name = i,
      labelLocation = Some \<lparr>latitude = lat, longitude = lon\<rparr>\<rparr>"

definition sixStations :: "Station list" where
  "sixStations =
     map (\<lambda>i. sampleStation i 1.35 103.8) [''S1'', ''S2'', ''S3'', ''S4'', ''S5'', ''S6'']"

definition drySnapshot :: WeatherData where
  "drySnapshot =
     \<lparr>stations = [sampleStation ''S1'' 1.35 103.8], rainfallMap = [(''S1'', 0)],
      windSpeedMap = [], windDirectionMap = [], windVectors = [],
      significantRainDetected = False, timestamp = ''2025-07-26T10:00:00+08:00'',
      rainfallUnit = ''mm'', windSpeedUnit = ''knots'', windDirectionUnit = ''degrees''\<rparr>"

definition emptyStorage :: LocalStorage where
  "emptyStorage = \<lparr>weatherDataCache = None, windVectorsCache = None\<rparr>"

text \<open>
  A reference location, the point \<open>km\<close> kilometres due north of a location in the local
  projection, a station there, a wind vector that blows due south (towards negative \<open>y\<close>)
  at \<open>v\<close> km/h, and rainy snapshots built from them.
\<close>

definition userLoc :: UserLocation where
  "userLoc = \<lparr>latitude = 1.3, longitude = 103.8\<rparr>"

definition dueNorth :: "UserLocation \<Rightarrow> real \<Rightarrow> UserLocation" where
  "dueNorth ref km =
     \<lparr>latitude = latitude ref + km * 180 / (6371 * pi), longitude = longitude ref\<rparr>"

definition stationNorth :: "string \<Rightarrow> real \<Rightarrow> Station" where
  "stationNorth i km =
     \<lparr>sid = i, deviceId = i, name = i, labelLocation = Some (dueNorth userLoc km)\<rparr>"

definition southerly :: "real \<Rightarrow> WindVector" where
  "southerly v = \<lparr>velocityX = 0, velocityY = - v, magnitude = v, directionDeg = 270\<rparr>"

definition rainSnapshot ::
  "Station list \<Rightarrow> (string \<times> real) list \<Rightarrow> (string \<times> WindVector) list \<Rightarrow> WeatherData" where
  "rainSnapshot sts rain wv =
     \<lparr>stations = sts, rainfallMap = rain,
      windSpeedMap = map (\<lambda>(k, w). (k, magnitude w / 1.852)) wv,
      windDirectionMap = map (\<lambda>(k, w). (k, 90)) wv,
      windVectors = wv, significantRainDetected = True,
      timestamp = ''2025-07-26T10:00:00+08:00'',
      rainfallUnit = ''mm'', windSpeedUnit = ''knots'', windDirectionUnit = ''degrees''\<rparr>"

text \<open>
  Station \<open>B\<close> is 5 km away and its rain arrives in 10 minutes; station \<open>A\<close> is 3 km away
  and its rain arrives in 72/7 minutes, a little later.
\<close>

definition tieSnapshot :: WeatherData where
  "tieSnapshot =
     rainSnapshot [stationNorth ''B'' 5, stationNorth ''A'' 3]
       [(''A'', 5), (''B'', 5)]
       [(''A'', southerly 17.5), (''B'', southerly 30)]"









text \<open>
  Feeds with two stations, the environments built from them (the rainfall feed dry, rainy
  or failing; a wind feed failing), and two worlds: one with an empty storage and one
  whose cache entry expired at 10:00:00 local time, both at 10:02:30.
\<close>

definition rawStationAt :: "string \<Rightarrow> real \<Rightarrow> real \<Rightarrow> RawStation" where
  "rawStationAt i lat lon =
     \<lparr>sid = i, deviceId = i, name = i, labelLocation = None,
      location = Some \<lparr>latitude = lat, longitude = lon\<rparr>\<rparr>"

definition feedData :: "(string \<times> real) list \<Rightarrow> string \<Rightarrow> ApiData" where
  "feedData vals unit =
     \<lparr>apiStations = [rawStationAt ''S1'' 1.35 103.8, rawStationAt ''S2'' 1.3 103.85],
      readings =
        [\<lparr>readingTimestamp = ''2025-07-26T10:00:00+08:00'',
          items = map (\<lambda>(k, v). \<lparr>stationId = k, itemValue = v\<rparr>) vals\<rparr>],
      readingType = ''TM5MIN'', readingUnit = unit, paginationToken = None\<rparr>"

definition feedResponse ::
  "int \<Rightarrow> string option \<Rightarrow> (string \<times> real) list \<Rightarrow> string \<Rightarrow> GenericApiResponse" where
  "feedResponse c msg vals unit = \<lparr>code = c, errorMsg = msg, data = Some (feedData vals unit)\<rparr>"

definition feeds :: "GenericApiResponse \<Rightarrow> GenericApiResponse \<Rightarrow> GenericApiResponse \<Rightarrow> Env" where
  "feeds rain speed dir =
     \<lparr>tzOffsetMinutes = 480,
      upstream = (\<lambda>url. Resolved (case url of rainfall \<Rightarrow> rain | wind_speed \<Rightarrow> speed
                                    | wind_direction \<Rightarrow> dir)),
      latency = (\<lambda>url. 120),
      toISOString = (\<lambda>t. ''1970-01-01T02:02:30.000Z'')\<rparr>"

definition windOk :: "GenericApiResponse" where
  "windOk = feedResponse 0 None [(''S1'', 8), (''S2'', 90)] ''knots''"

definition dryEnv :: Env where
  "dryEnv = feeds (feedResponse 0 None [(''S1'', 0), (''S2'', 0.4)] ''mm'') windOk windOk"

definition failingEnv :: Env where
  "failingEnv = feeds (feedResponse 429 (Some ''Too many requests'') [] ''mm'') windOk windOk"

definition freshWorld :: World where
  "freshWorld = \<lparr>localStorage = emptyStorage, clock = 7350000, requests = []\<rparr>"

definition staleWorld :: World where
  "staleWorld =
     \<lparr>localStorage =
        \<lparr>weatherDataCache = Some (Stored \<lparr>expiry = 7200000, cached = drySnapshot\<rparr>),
         windVectorsCache = None\<rparr>,
      clock = 7350000, requests = []\<rparr>"

definition rainyEnv :: Env where
  "rainyEnv = feeds (feedResponse 0 None [(''S1'', 5), (''S2'', 0.4)] ''mm'') windOk windOk"

definition windFailingEnv :: Env where
  "windFailingEnv =
     feeds (feedResponse 0 None [(''S1'', 5), (''S2'', 0.4)] ''mm'') windOk
       (feedResponse 500 (Some ''Internal error'') [] ''degrees'')"

definition speedFailingEnv :: Env where
  "speedFailingEnv =
     feeds (feedResponse 0 None [(''S1'', 5), (''S2'', 0.4)] ''mm'')
       (feedResponse 503 None [] ''knots'') windOk"




section \<open>Properties\<close>

subsection \<open>Remainders and rounding\<close>

lemma js_rem_nonneg: "0 \<le> x \<Longrightarrow> 0 < y \<Longrightarrow> js_rem x y = x - y * of_int \<lfloor>x / y\<rfloor>"
  by (simp add: js_rem_def js_trunc_def)

lemma js_rem_small_neg:
  assumes "- y < x" "x \<le> 0" "0 < y"
  shows "js_rem x y = x"
proof (cases "x = 0")
  case True
  then show ?thesis by (simp add: js_rem_def js_trunc_def)
next
  case False
  with assms have neg: "x / y < 0" and gt: "- 1 < x / y"
    by (simp_all add: field_simps)
  have "\<lceil>x / y\<rceil> = 0"
    using neg gt by (simp add: ceiling_eq_iff)
  then show ?thesis
    using neg by (simp add: js_rem_def js_trunc_def)
qed

lemma js_rem_small: "0 \<le> x \<Longrightarrow> x < y \<Longrightarrow> js_rem x y = x"
  by (simp add: js_rem_nonneg floor_eq_iff)

lemma js_rem_int_nonneg: "0 \<le> a \<Longrightarrow> 0 < b \<Longrightarrow> js_rem_int a b = a mod b"
  by (cases "a = 0") (simp_all add: js_rem_int_def)

subsection \<open>The cardinal direction\<close>

lemma length_directions: "length directions = 16"
  by (simp add: directions_def)

text \<open>
  From \<open>-11.25\<close> degrees upwards the index that the code computes is the index of the
  nearest of the sixteen directions.
\<close>

lemma cardinal_index:
  assumes "- 11.25 \<le> deg"
  shows "js_rem_int (Math_round (js_rem deg 360 / 22.5)) 16 = round (deg / 22.5) mod 16"
proof (cases "0 \<le> deg")
  case True
  define k where "k = \<lfloor>deg / 360\<rfloor>"
  have r: "js_rem deg 360 = deg - 360 * of_int k"
    using True by (simp add: js_rem_nonneg k_def)
  have "of_int k \<le> deg / 360" unfolding k_def by (rule of_int_floor_le)
  then have r0: "0 \<le> deg - 360 * of_int k" by (simp add: pos_le_divide_eq)
  have "js_rem deg 360 / 22.5 + 1 / 2 = (deg / 22.5 + 1 / 2) - of_int (16 * k)"
    by (simp add: r field_simps)
  then have m: "Math_round (js_rem deg 360 / 22.5) = round (deg / 22.5) - 16 * k"
    unfolding Math_round_def round_def by (simp only: floor_diff_of_int)
  have "0 \<le> js_rem deg 360 / 22.5" using r0 r by simp
  then have "0 \<le> Math_round (js_rem deg 360 / 22.5)"
    by (simp add: Math_round_def)
  then have "js_rem_int (Math_round (js_rem deg 360 / 22.5)) 16
             = Math_round (js_rem deg 360 / 22.5) mod 16"
    by (simp add: js_rem_int_nonneg)
  also have "\<dots> = round (deg / 22.5) mod 16"
    unfolding m by presburger
  finally show ?thesis .
next
  case False
  with assms have r: "js_rem deg 360 = deg"
    by (intro js_rem_small_neg) simp_all
  have "0 \<le> deg / 22.5 + 1 / 2" "deg / 22.5 + 1 / 2 < 1"
    using assms False by (simp_all add: field_simps)
  then have "\<lfloor>deg / 22.5 + 1 / 2\<rfloor> = 0"
    by (simp add: floor_eq_iff)
  then show ?thesis
    by (simp add: r Math_round_def round_def js_rem_int_def)
qed

text \<open>
  Claim C8, as stated, fails: \<^verbatim>\<open>convertDegreesToCardinal\<close> is not total over the negative
  degrees. At \<open>-90\<close> the remainder \<^verbatim>\<open>deg % 360\<close> keeps the sign, the index is \<open>-4\<close>, and
  the array lookup yields no label, where \<open>round(deg/22.5) mod 16\<close> names \<open>W\<close>.
\<close>

theorem cardinal_negative_counterexample:
  "convertDegreesToCardinal (- 90) = None
   \<and> directions ! nat (round (- 90 / 22.5 :: real) mod 16) = ''W''"
proof -
  have "js_rem (- 90) 360 = - 90"
    by (rule js_rem_small_neg) simp_all
  moreover have "\<lfloor>- 90 / 22.5 + 1 / 2 :: real\<rfloor> = - 4"
    by (simp add: floor_eq_iff)
  ultimately have "convertDegreesToCardinal (- 90) = None"
    by (simp add: convertDegreesToCardinal_def Math_round_def js_rem_int_def)
  moreover have "round (- 90 / 22.5 :: real) = - 4"
    by (simp add: round_def floor_eq_iff)
  ultimately show ?thesis
    by (simp add: directions_def)
qed

text \<open>
  Claim C8, amended: for every degrees value of at least \<open>-11.25\<close> (every non-negative
  value, and so the documented range 0 to 360, included) \<^verbatim>\<open>convertDegreesToCardinal\<close>
  returns one of the sixteen compass labels, the one at index \<open>round(deg/22.5) mod 16\<close>;
  and the label of 0 is the label of 360.
\<close>

theorem cardinal_total_from_minus_11_25:
  assumes "- 11.25 \<le> deg"
  shows "(\<exists>label. convertDegreesToCardinal deg = Some label
            \<and> label \<in> set directions
            \<and> label = directions ! nat (round (deg / 22.5) mod 16))
         \<and> convertDegreesToCardinal 0 = convertDegreesToCardinal 360"
proof -
  let ?i = "round (deg / 22.5) mod 16"
  have i: "0 \<le> ?i" "?i < 16" by simp_all
  then have n: "nat ?i < length directions"
    by (simp add: length_directions)
  have "convertDegreesToCardinal deg =
          (if 0 \<le> ?i \<and> ?i < int (length directions) then Some (directions ! nat ?i) else None)"
    unfolding convertDegreesToCardinal_def cardinal_index[OF assms] Let_def ..
  then have "convertDegreesToCardinal deg = Some (directions ! nat ?i)"
    using i by (simp only: length_directions) simp
  moreover have "directions ! nat ?i \<in> set directions"
    using n by (rule nth_mem)
  moreover have "convertDegreesToCardinal 0 = convertDegreesToCardinal 360"
    by (simp add: convertDegreesToCardinal_def js_rem_def js_trunc_def)
  ultimately show ?thesis by blast
qed

theorem cardinal_total_witness:
  "(- 11.25 :: real) \<le> 100 \<and> convertDegreesToCardinal 100 = Some ''E''
   \<and> convertDegreesToCardinal 0 = convertDegreesToCardinal 360"
  using cardinal_total_from_minus_11_25[of 100]
  by (simp add: directions_def round_def)

subsection \<open>The wind vector\<close>

text \<open>
  Claim C6: for a speed of 10 knots and a direction-from of 90 degrees,
  \<^verbatim>\<open>convertToWindVector\<close> returns magnitude 18.52 km/h, travel direction 270 degrees,
  \<open>velocityX = 0\<close> and \<open>velocityY = -18.52\<close>. In exact arithmetic the four values are
  exact, so they hold approximately with every tolerance.
\<close>

theorem wind_vector_from_east:
  "convertToWindVector 10 90
     = \<lparr>velocityX = 0, velocityY = - 18.52, magnitude = 18.52, directionDeg = 270\<rparr>"
proof -
  have r: "js_rem (90 + 180) 360 = 270"
    by (simp add: js_rem_small)
  have a: "270 * (pi / 180) = 3 / 2 * pi" by simp
  show ?thesis
    unfolding convertToWindVector_def Let_def r a cos_3over2_pi sin_3over2_pi
    by simp
qed

subsection \<open>The time-aligned cache\<close>

text \<open>The expiry is the start of the local minute that is the next multiple of five.\<close>

lemma getNext5MinMark_eq:
  "getNext5MinMark tz now = 60000 * (now div 60000 + (5 - (now div 60000 + tz) mod 5))"
proof -
  define q where "q = now div 60000"
  define r where "r = now mod 60000"
  define a where "a = 5 - (q + tz) mod 5"
  have now: "now = 60000 * q + r" and r: "0 \<le> r" "r < 60000"
    by (simp_all add: q_def r_def)
  have m: "getMinutes tz now mod 5 = (q + tz) mod 5"
    unfolding getMinutes_def q_def by (simp add: mod_mod_cancel)
  define e0 where "e0 = now + a * 60 * 1000"
  have e0: "e0 = 1000 * (60 * (q + a)) + r"
    by (simp add: e0_def now algebra_simps)
  have rs: "0 \<le> r div 1000" "r div 1000 < 60" using r by simp_all
  have d: "e0 div 1000 = 60 * (q + a) + r div 1000"
    unfolding e0 by simp
  have "(60 * (q + a) + r div 1000) mod 60 = (r div 1000) mod 60"
    by (rule mod_mult_self4)
  then have s: "e0 div 1000 mod 60 = r div 1000"
    unfolding d using rs by simp
  have ss: "setSeconds 0 e0 = 1000 * (60 * (q + a)) + r mod 1000"
    unfolding setSeconds_def s unfolding e0
    by (simp add: minus_div_mult_eq_mod)
  have sm: "setSeconds 0 e0 mod 1000 = r mod 1000"
    by (simp only: ss mod_mult_self4 mod_mod_trivial)
  have "setMilliseconds 0 (setSeconds 0 e0) = setSeconds 0 e0 - setSeconds 0 e0 mod 1000"
    by (simp add: setMilliseconds_def)
  with ss sm have "setMilliseconds 0 (setSeconds 0 e0) = 60000 * (q + a)"
    by linarith
  then show ?thesis
    unfolding getNext5MinMark_def Let_def m
    by (simp add: e0_def a_def q_def)
qed

lemma next_mark_bounds:
  fixes tz now :: int
  shows "now < getNext5MinMark tz now"
    and "getNext5MinMark tz now \<le> now + 300000"
    and "(getNext5MinMark tz now + tz * 60000) mod 300000 = 0"
    and "getNext5MinMark tz now mod 60000 = 0"
proof -
  define q where "q = now div 60000"
  define a where "a = 5 - (q + tz) mod 5"
  have e: "getNext5MinMark tz now = 60000 * (q + a)"
    by (simp add: getNext5MinMark_eq q_def a_def)
  have a: "1 \<le> a" "a \<le> 5" by (simp_all add: a_def)
  have "now = 60000 * q + now mod 60000" by (simp add: q_def)
  moreover have "0 \<le> now mod 60000" "now mod 60000 < 60000" by simp_all
  ultimately have now: "60000 * q \<le> now" "now < 60000 * q + 60000" by linarith+
  show "now < getNext5MinMark tz now" using e a now by simp
  show "getNext5MinMark tz now \<le> now + 300000" using e a now by simp
  have "(q + tz + a) mod 5 = 0" unfolding a_def by presburger
  then obtain c where c: "q + tz + a = 5 * c" by auto
  have "getNext5MinMark tz now + tz * 60000 = 60000 * (q + tz + a)"
    by (simp add: e algebra_simps)
  then show "(getNext5MinMark tz now + tz * 60000) mod 300000 = 0"
    by (simp add: c)
  show "getNext5MinMark tz now mod 60000 = 0" by (simp add: e)
qed

lemma next_mark_on_boundary:
  assumes "(now + tz * 60000) mod 300000 = 0"
  shows "getNext5MinMark tz now = now + 300000"
proof -
  from assms obtain c where c: "now + tz * 60000 = 300000 * c" by auto
  then have now: "now = 60000 * (5 * c - tz)" by simp
  have q: "now div 60000 = 5 * c - tz" unfolding now by simp
  show ?thesis unfolding getNext5MinMark_eq q by (simp add: now)
qed

text \<open>
  Claim C5: a put at the time \<open>now\<close> stores the snapshot with the expiry \<open>e\<close> that is the
  next 5-minute boundary of the local wall clock strictly after \<open>now\<close>: \<open>e\<close> is later than
  \<open>now\<close> by at most five minutes, it is a multiple of five minutes in local time, and its
  seconds and milliseconds are zero; a put exactly on a boundary gets the full five
  minutes. A get at a time \<open>t\<close> returns the stored snapshot and leaves the entry while
  \<open>t \<le> e\<close>, and returns nothing and removes the entry once \<open>e < t\<close>.
\<close>

theorem cache_expiry_next_boundary:
  "weatherDataCache (setCachedData tz now d st)
     = Some (Stored \<lparr>expiry = getNext5MinMark tz now, cached = d\<rparr>)
   \<and> now < getNext5MinMark tz now
   \<and> getNext5MinMark tz now \<le> now + 300000
   \<and> (getNext5MinMark tz now + tz * 60000) mod 300000 = 0
   \<and> getNext5MinMark tz now mod 60000 = 0
   \<and> ((now + tz * 60000) mod 300000 = 0 \<longrightarrow> getNext5MinMark tz now = now + 300000)
   \<and> (t \<le> getNext5MinMark tz now \<longrightarrow>
        getCachedData t (setCachedData tz now d st) = (Some d, setCachedData tz now d st))
   \<and> (getNext5MinMark tz now < t \<longrightarrow>
        getCachedData t (setCachedData tz now d st)
          = (None, (setCachedData tz now d st)\<lparr>weatherDataCache := None\<rparr>))"
proof -
  have put: "weatherDataCache (setCachedData tz now d st)
               = Some (Stored \<lparr>expiry = getNext5MinMark tz now, cached = d\<rparr>)"
    by (simp add: setCachedData_def)
  have hit: "getCachedData t (setCachedData tz now d st) = (Some d, setCachedData tz now d st)"
    if "t \<le> getNext5MinMark tz now"
    using that by (simp add: getCachedData_def put)
  have miss: "getCachedData t (setCachedData tz now d st)
                = (None, (setCachedData tz now d st)\<lparr>weatherDataCache := None\<rparr>)"
    if "getNext5MinMark tz now < t"
    using that by (simp add: getCachedData_def put)
  show ?thesis
    using put hit miss next_mark_bounds[where tz=tz and now=now]
      next_mark_on_boundary[where tz=tz and now=now]
    by blast
qed

text \<open>
  In the time zone UTC+8, 10:02:30 of the first day of the epoch is the time 7350000, and
  10:05:00 is 7500000: the put at 10:02:30 expires at 10:05:00 exactly, as does a put at
  10:00:00; the get at 10:04:59 returns the snapshot, the get at 10:05:01 returns nothing
  and leaves the storage empty.
\<close>

theorem cache_expiry_next_boundary_witness:
  "getNext5MinMark 480 7350000 = 7500000
   \<and> getNext5MinMark 480 7200000 = 7500000
   \<and> fst (getCachedData 7499000 (setCachedData 480 7350000 drySnapshot emptyStorage))
       = Some drySnapshot
   \<and> getCachedData 7501000 (setCachedData 480 7350000 drySnapshot emptyStorage)
       = (None, emptyStorage)"
proof -
  have e: "getNext5MinMark 480 7350000 = 7500000" "getNext5MinMark 480 7200000 = 7500000"
    by (simp_all add: getNext5MinMark_eq)
  have "(setCachedData 480 7350000 drySnapshot emptyStorage)\<lparr>weatherDataCache := None\<rparr>
          = emptyStorage"
    by (simp add: setCachedData_def emptyStorage_def)
  then show ?thesis
    using cache_expiry_next_boundary[of 480 7350000 drySnapshot emptyStorage 7499000]
      cache_expiry_next_boundary[of 480 7350000 drySnapshot emptyStorage 7501000] e
    by simp
qed

subsection \<open>The station filter\<close>

lemma length_insert_by: "length (insert_by cmp x xs) = Suc (length xs)"
  by (induction xs) simp_all

lemma length_Array_sort: "length (Array_sort cmp xs) = length xs"
  unfolding Array_sort_def by (induction xs) (simp_all add: length_insert_by)

lemma length_Array_slice_0: "0 \<le> n \<Longrightarrow> length (Array_slice xs 0 n) = min (length xs) (nat n)"
  by (simp add: Array_slice_def Let_def min_def) arith

text \<open>
  Claim C10: when the latitude or the longitude of the reference location is 0,
  \<^verbatim>\<open>filterNearbyStations\<close> takes the location for absent and returns the station list it
  was given, unchanged.
\<close>

theorem filter_zero_coordinate_returns_input:
  "lat = 0 \<or> lon = 0 \<Longrightarrow> filterNearbyStations sts (Some lat) (Some lon) config = sts"
  by (auto simp add: filterNearbyStations_def)

theorem filter_zero_coordinate_witness:
  "filterNearbyStations sixStations (Some 0) (Some 103.8)
     \<lparr>radiusKm = 15, maxStations = 5, minStations = 3\<rparr> = sixStations"
  using filter_zero_coordinate_returns_input[of 0 "103.8" sixStations]
  by simp

text \<open>
  Claim C3, as stated, fails: with \<open>maxStations = 5\<close> and \<open>minStations = 6\<close>, both within
  the ranges of the configuration panel, six stations with a position give a result of six
  entries. The first pass keeps at most five, which is below the floor, and the second
  pass replaces the result by the \<open>minStations\<close> closest stations.
\<close>

theorem filter_exceeds_maxStations_counterexample:
  "length (filterNearbyStations sixStations (Some 1.35) (Some 103.8)
             \<lparr>radiusKm = 15, maxStations = 5, minStations = 6\<rparr>) = 6
   \<and> \<not> (6 :: int) \<le> maxStations \<lparr>radiusKm = 15, maxStations = 5, minStations = 6\<rparr>"
proof -
  let ?c = "\<lparr>radiusKm = 15, maxStations = 5, minStations = 6\<rparr>"
  let ?near = "Array_slice (Array_sort byDistance
                 (filter (\<lambda>item. snd item \<le> radiusKm ?c) (withDistance 1.35 103.8 sixStations)))
                 0 (maxStations ?c)"
  let ?all = "Array_slice (Array_sort byDistance (withDistance 1.35 103.8 sixStations))
                 0 (minStations ?c)"
  have six: "length sixStations = 6"
    and loc: "\<And>lat lon. length (withDistance lat lon sixStations) = 6"
    by (simp_all add: withDistance_def sixStations_def sampleStation_def)
  have "length ?near \<le> 5"
    by (simp add: length_Array_slice_0)
  then have "filterNearbyStations sixStations (Some 1.35) (Some 103.8) ?c = map fst ?all"
    by (simp add: filterNearbyStations_def Let_def six)
  moreover have "length ?all = 6"
    by (simp add: length_Array_slice_0 length_Array_sort loc)
  ultimately show ?thesis by simp
qed

text \<open>
  Claim C3, amended: for every station list, every reference location whose latitude and
  longitude are both non-zero, and every configuration with \<open>maxStations \<ge> 0\<close>,
  \<^verbatim>\<open>filterNearbyStations\<close> returns at most \<open>max(maxStations, minStations)\<close> entries: at most
  \<open>maxStations\<close> when \<open>minStations \<le> maxStations\<close>, and at most \<open>minStations\<close> when the
  floor is above the cap.
\<close>

theorem filter_length_bound:
  assumes "lat \<noteq> 0" "lon \<noteq> 0" "0 \<le> maxStations config"
  shows "int (length (filterNearbyStations sts (Some lat) (Some lon) config))
           \<le> max (maxStations config) (minStations config)"
proof -
  let ?near = "Array_slice (Array_sort byDistance
                 (filter (\<lambda>item. snd item \<le> radiusKm config) (withDistance lat lon sts)))
                 0 (maxStations config)"
  let ?all = "Array_slice (Array_sort byDistance (withDistance lat lon sts))
                 0 (minStations config)"
  have near: "int (length ?near) \<le> maxStations config"
    using assms(3) by (simp add: length_Array_slice_0)
  show ?thesis
  proof (cases "int (length ?near) < minStations config
                  \<and> int (length sts) \<ge> minStations config")
    case True
    then have "0 \<le> minStations config" by linarith
    then have "int (length ?all) \<le> minStations config"
      by (simp add: length_Array_slice_0)
    moreover have "filterNearbyStations sts (Some lat) (Some lon) config = map fst ?all"
      using True assms(1,2) by (simp add: filterNearbyStations_def Let_def)
    ultimately show ?thesis by simp
  next
    case False
    then have "filterNearbyStations sts (Some lat) (Some lon) config = map fst ?near"
      using assms(1,2) by (auto simp add: filterNearbyStations_def Let_def)
    with near show ?thesis by simp
  qed
qed

theorem filter_length_bound_witness:
  "int (length (filterNearbyStations sixStations (Some 1.35) (Some 103.8)
                  \<lparr>radiusKm = 15, maxStations = 5, minStations = 3\<rparr>)) \<le> 5"
  using filter_length_bound[of "1.35" "103.8" "\<lparr>radiusKm = 15, maxStations = 5, minStations = 3\<rparr>"
      sixStations]
  by simp

subsection \<open>The prediction: sorting\<close>

lemma set_insert_by: "set (insert_by cmp x xs) = insert x (set xs)"
  by (induction xs) auto

lemma set_Array_sort: "set (Array_sort cmp xs) = set xs"
  unfolding Array_sort_def by (induction xs) (simp_all add: set_insert_by)

text \<open>
  For a comparator that is transitive and total, the sort yields a list in which every
  element precedes all later ones, so its head is a least element.
\<close>

lemma sorted_insert_by:
  assumes tr: "\<forall>a b c. cmp a b \<le> 0 \<longrightarrow> cmp b c \<le> 0 \<longrightarrow> cmp a c \<le> 0"
    and tot: "\<forall>a b. cmp a b \<le> 0 \<or> cmp b a \<le> 0"
  shows "sorted_wrt (\<lambda>a b. cmp a b \<le> 0) xs \<Longrightarrow> sorted_wrt (\<lambda>a b. cmp a b \<le> 0) (insert_by cmp x xs)"
proof (induction xs)
  case Nil
  then show ?case by simp
next
  case (Cons y ys)
  show ?case
  proof (cases "cmp x y \<le> 0")
    case True
    with Cons.prems tr show ?thesis by (auto; blast)
  next
    case False
    with tot have "cmp y x \<le> 0" by blast
    with Cons False show ?thesis by (auto simp add: set_insert_by)
  qed
qed

lemma sorted_Array_sort:
  assumes tr: "\<forall>a b c. cmp a b \<le> 0 \<longrightarrow> cmp b c \<le> 0 \<longrightarrow> cmp a c \<le> 0"
    and tot: "\<forall>a b. cmp a b \<le> 0 \<or> cmp b a \<le> 0"
  shows "sorted_wrt (\<lambda>a b. cmp a b \<le> 0) (Array_sort cmp xs)"
  unfolding Array_sort_def
  by (induction xs) (simp_all add: sorted_insert_by[OF tr tot])

lemma hd_Array_sort_least:
  assumes tr: "\<forall>a b c. cmp a b \<le> 0 \<longrightarrow> cmp b c \<le> 0 \<longrightarrow> cmp a c \<le> 0"
    and tot: "\<forall>a b. cmp a b \<le> 0 \<or> cmp b a \<le> 0"
    and ne: "xs \<noteq> []"
  shows "hd (Array_sort cmp xs) \<in> set xs \<and> (\<forall>u \<in> set xs. cmp (hd (Array_sort cmp xs)) u \<le> 0)"
proof -
  from ne have "set (Array_sort cmp xs) \<noteq> {}" by (simp add: set_Array_sort)
  then obtain y ys where s: "Array_sort cmp xs = y # ys"
    by (cases "Array_sort cmp xs") auto
  have "sorted_wrt (\<lambda>a b. cmp a b \<le> 0) (y # ys)"
    using sorted_Array_sort[OF tr tot, where xs=xs] by (simp add: s)
  then have "\<forall>u \<in> set ys. cmp y u \<le> 0" by simp
  moreover have "cmp y y \<le> 0" using tot by blast
  moreover have "set xs = insert y (set ys)"
    using set_Array_sort[of cmp xs] by (simp add: s)
  ultimately show ?thesis by (simp add: s)
qed

lemma threatOrder_le:
  "threatOrder a b \<le> 0 \<longleftrightarrow>
     timeToReach a < timeToReach b \<or> (timeToReach a = timeToReach b \<and> distance a \<le> distance b)"
  by (auto simp add: threatOrder_def)

lemma threatOrder_trans:
  "threatOrder a b \<le> 0 \<Longrightarrow> threatOrder b c \<le> 0 \<Longrightarrow> threatOrder a c \<le> 0"
  unfolding threatOrder_le by auto

lemma threatOrder_total: "threatOrder a b \<le> 0 \<or> threatOrder b a \<le> 0"
  unfolding threatOrder_le by auto

subsection \<open>The prediction: the loop over the candidates\<close>

lemma threatLoop_eq:
  "threatLoop loc wd sts acc = acc @ List.map_filter (stationThreat loc wd) sts"
  by (induction sts arbitrary: acc) (simp_all split: option.split)

lemma set_map_filter_eq: "set (List.map_filter f xs) = {y. \<exists>x \<in> set xs. f x = Some y}"
  by (induction xs) (auto split: option.splits)

lemma set_threatLoop:
  "set (threatLoop loc wd sts []) = {t. \<exists>s \<in> set sts. stationThreat loc wd s = Some t}"
  by (simp add: threatLoop_eq set_map_filter_eq)

lemma stationThreat_SomeD:
  assumes "stationThreat loc wd s = Some t"
  shows "\<exists>sl w. labelLocation s = Some sl \<and> map_of (windVectors wd) (sid s) = Some w
           \<and> stationName t = name s
           \<and> timeToReach t = Math_round (timeToArrive loc sl w)
           \<and> distance t = distanceToUser loc sl"
  using assms
  by (auto simp add: stationThreat_def split: option.splits if_splits)

text \<open>A positive dot product means a positive distance, hence a positive closing speed.\<close>

lemma distance_pos_of_dot:
  assumes "dotProduct loc sl w > 0"
  shows "distanceToUser loc sl > 0"
proof -
  obtain x y where v: "stationToUser loc sl = (x, y)" by (cases "stationToUser loc sl")
  from assms have "x \<noteq> 0 \<or> y \<noteq> 0"
    by (auto simp add: dotProduct_def v)
  then have "0 < x * x + y * y"
    by (metis add_pos_nonneg add_nonneg_pos mult_eq_0_iff not_less sum_squares_ge_zero zero_le_square less_le)
  then show ?thesis
    by (simp add: distanceToUser_def v)
qed

lemma stationThreat_dot_pos:
  assumes "labelLocation s = Some sl" "map_of (windVectors wd) (sid s) = Some w"
    and "dotProduct loc sl w > 0"
  shows "stationThreat loc wd s =
           (if timeToArrive loc sl w \<le> 15
            then Some \<lparr>stationName = name s, timeToReach = Math_round (timeToArrive loc sl w),
                       distance = distanceToUser loc sl\<rparr>
            else None)"
proof -
  have "effectiveVelocity loc sl w > 0"
    using assms(3) distance_pos_of_dot[OF assms(3)] by (simp add: effectiveVelocity_def)
  then show ?thesis
    using assms by (simp add: stationThreat_def PREDICTION_TIME_MINUTES_def)
qed

text \<open>The geometry of a station due north of the reference location.\<close>

lemma toCartesian_dueNorth: "toCartesian (dueNorth ref km) ref = (0, km)"
  by (simp add: toCartesian_def dueNorth_def deg2rad_def)

lemma stationToUser_dueNorth: "stationToUser ref (dueNorth ref km) = (0, - km)"
  by (simp add: stationToUser_def toCartesian_dueNorth)

lemma distanceToUser_dueNorth: "distanceToUser ref (dueNorth ref km) = \<bar>km\<bar>"
  by (simp add: distanceToUser_def stationToUser_dueNorth)

lemma dotProduct_dueNorth: "dotProduct ref (dueNorth ref km) w = - (velocityY w * km)"
  by (simp add: dotProduct_def stationToUser_dueNorth)

lemma timeToArrive_dueNorth:
  assumes "0 < km"
  shows "effectiveVelocity ref (dueNorth ref km) w = - velocityY w"
    and "timeToArrive ref (dueNorth ref km) w = km / (- velocityY w) * 60"
proof -
  show e: "effectiveVelocity ref (dueNorth ref km) w = - velocityY w"
    using assms by (simp add: effectiveVelocity_def dotProduct_dueNorth distanceToUser_dueNorth)
  show "timeToArrive ref (dueNorth ref km) w = km / (- velocityY w) * 60"
    using assms by (simp add: timeToArrive_def e distanceToUser_dueNorth)
qed

lemma stationThreat_north:
  assumes "map_of (windVectors wd) i = Some (southerly v)" "0 < km" "0 < v"
  shows "stationThreat userLoc wd (stationNorth i km) =
           (if km / v * 60 \<le> 15
            then Some \<lparr>stationName = i, timeToReach = Math_round (km / v * 60), distance = km\<rparr>
            else None)"
proof -
  have l: "labelLocation (stationNorth i km) = Some (dueNorth userLoc km)"
    and i: "sid (stationNorth i km) = i" and n: "name (stationNorth i km) = i"
    by (simp_all add: stationNorth_def)
  have y: "velocityY (southerly v) = - v" by (simp add: southerly_def)
  have "dotProduct userLoc (dueNorth userLoc km) (southerly v) > 0"
    using assms(2,3) by (simp add: dotProduct_dueNorth y)
  from stationThreat_dot_pos[OF l _ this, of wd] assms(1,2)
  show ?thesis
    by (simp add: i n timeToArrive_dueNorth distanceToUser_dueNorth y)
qed

lemma tie_facts:
  shows "map_of (windVectors tieSnapshot) ''A'' = Some (southerly 17.5)"
    and "map_of (windVectors tieSnapshot) ''B'' = Some (southerly 30)"
    and "rainyStations tieSnapshot = [stationNorth ''B'' 5, stationNorth ''A'' 3]"
    and "significantRainDetected tieSnapshot"
  by (simp_all add: tieSnapshot_def rainSnapshot_def rainyStations_def isRainyStation_def
      stationNorth_def southerly_def SIGNIFICANT_RAIN_THRESHOLD_MM_def)

lemma tie_threats:
  shows "stationThreat userLoc tieSnapshot (stationNorth ''A'' 3)
           = Some \<lparr>stationName = ''A'', timeToReach = 10, distance = 3\<rparr>"
    and "stationThreat userLoc tieSnapshot (stationNorth ''B'' 5)
           = Some \<lparr>stationName = ''B'', timeToReach = 10, distance = 5\<rparr>"
proof -
  have "\<lfloor>3 / 17.5 * 60 + 1 / 2 :: real\<rfloor> = 10" by (simp add: floor_eq_iff)
  then show "stationThreat userLoc tieSnapshot (stationNorth ''A'' 3)
           = Some \<lparr>stationName = ''A'', timeToReach = 10, distance = 3\<rparr>"
    using stationThreat_north[OF tie_facts(1), of 3] by (simp add: Math_round_def)
  have "\<lfloor>5 / 30 * 60 + 1 / 2 :: real\<rfloor> = 10" by (simp add: floor_eq_iff)
  then show "stationThreat userLoc tieSnapshot (stationNorth ''B'' 5)
           = Some \<lparr>stationName = ''B'', timeToReach = 10, distance = 5\<rparr>"
    using stationThreat_north[OF tie_facts(2), of 5] by (simp add: Math_round_def)
qed

text \<open>
  Claim C1, as stated, fails: the threats are sorted by the time to arrive after it has
  been rounded to whole minutes. In \<open>tieSnapshot\<close> the rain of station \<open>B\<close> has the
  smallest time to arrive, 10 minutes against 72/7 minutes for station \<open>A\<close>; both round to
  10, the tie goes to the smaller distance, and the prediction names \<open>A\<close>.
\<close>

theorem prediction_tie_counterexample:
  "stationThreat userLoc tieSnapshot (stationNorth ''A'' 3)
     = Some \<lparr>stationName = ''A'', timeToReach = 10, distance = 3\<rparr>
   \<and> stationThreat userLoc tieSnapshot (stationNorth ''B'' 5)
     = Some \<lparr>stationName = ''B'', timeToReach = 10, distance = 5\<rparr>
   \<and> timeToArrive userLoc (dueNorth userLoc 3) (southerly 17.5) = 72 / 7
   \<and> timeToArrive userLoc (dueNorth userLoc 5) (southerly 30) = 10
   \<and> timeToArrive userLoc (dueNorth userLoc 5) (southerly 30)
       < timeToArrive userLoc (dueNorth userLoc 3) (southerly 17.5)
   \<and> calculateRainPrediction userLoc tieSnapshot
     = ''Rain from A is moving your way and could arrive in about 10 minutes.''"
proof -
  have "timeToArrive userLoc (dueNorth userLoc 3) (southerly 17.5) = 72 / 7"
    "timeToArrive userLoc (dueNorth userLoc 5) (southerly 30) = 10"
    by (simp_all add: timeToArrive_dueNorth southerly_def)
  moreover have "calculateRainPrediction userLoc tieSnapshot
     = ''Rain from A is moving your way and could arrive in about 10 minutes.''"
    by (simp add: calculateRainPrediction_def tie_facts tie_threats Array_sort_def
        threatOrder_def threatMessage_def Number_toString_def)
  ultimately show ?thesis using tie_threats by simp
qed

text \<open>
  Claim C1, amended: for every snapshot with the significant-rain flag set and at least
  one qualifying threat, \<^verbatim>\<open>calculateRainPrediction\<close> names the station of a threat whose
  time to arrive, rounded to whole minutes, is the smallest; among the threats with that
  same rounded time it is one with the smallest distance to the reference location.
\<close>

theorem prediction_names_least_rounded_threat:
  assumes rain: "significantRainDetected wd"
    and ex: "\<exists>s \<in> set (rainyStations wd). stationThreat loc wd s \<noteq> None"
  shows "\<exists>s \<in> set (rainyStations wd). \<exists>sl w t.
           labelLocation s = Some sl \<and> map_of (windVectors wd) (sid s) = Some w
           \<and> stationThreat loc wd s = Some t
           \<and> stationName t = name s
           \<and> timeToReach t = Math_round (timeToArrive loc sl w)
           \<and> distance t = distanceToUser loc sl
           \<and> calculateRainPrediction loc wd = threatMessage t
           \<and> (\<forall>s' \<in> set (rainyStations wd). \<forall>u. stationThreat loc wd s' = Some u \<longrightarrow>
                 timeToReach t < timeToReach u
                 \<or> (timeToReach t = timeToReach u \<and> distance t \<le> distance u))"
proof -
  let ?threats = "threatLoop loc wd (rainyStations wd) []"
  let ?t = "hd (Array_sort threatOrder ?threats)"
  from ex have ne: "?threats \<noteq> []"
    using set_threatLoop[of loc wd "rainyStations wd"] by fastforce
  from ex have rne: "rainyStations wd \<noteq> []" by auto
  have msg: "calculateRainPrediction loc wd = threatMessage ?t"
    using rain ne rne by (simp add: calculateRainPrediction_def Let_def)
  have "\<forall>a b c. threatOrder a b \<le> 0 \<longrightarrow> threatOrder b c \<le> 0 \<longrightarrow> threatOrder a c \<le> 0"
    using threatOrder_trans by blast
  moreover have "\<forall>a b. threatOrder a b \<le> 0 \<or> threatOrder b a \<le> 0"
    using threatOrder_total by blast
  ultimately have least: "?t \<in> set ?threats" "\<forall>u \<in> set ?threats. threatOrder ?t u \<le> 0"
    using hd_Array_sort_least[where cmp=threatOrder and xs="?threats"] ne
    by blast+
  from least(1) obtain s where s: "s \<in> set (rainyStations wd)" "stationThreat loc wd s = Some ?t"
    unfolding set_threatLoop by blast
  from stationThreat_SomeD[OF s(2)] obtain sl w where
    d: "labelLocation s = Some sl" "map_of (windVectors wd) (sid s) = Some w"
       "stationName ?t = name s" "timeToReach ?t = Math_round (timeToArrive loc sl w)"
       "distance ?t = distanceToUser loc sl"
    by blast
  have "timeToReach ?t < timeToReach u \<or> (timeToReach ?t = timeToReach u \<and> distance ?t \<le> distance u)"
    if "s' \<in> set (rainyStations wd)" "stationThreat loc wd s' = Some u" for s' u
  proof -
    from that have "u \<in> set ?threats" unfolding set_threatLoop by blast
    with least(2) have "threatOrder ?t u \<le> 0" by blast
    then show ?thesis by (simp only: threatOrder_le)
  qed
  with s d msg show ?thesis by blast
qed

text \<open>
  On \<open>tieSnapshot\<close> the theorem alone determines the outcome: station \<open>B\<close> ties in rounded
  minutes and is farther away, so the station named is \<open>A\<close>.
\<close>

theorem prediction_names_least_rounded_threat_witness:
  "significantRainDetected tieSnapshot
   \<and> (\<exists>s \<in> set (rainyStations tieSnapshot). stationThreat userLoc tieSnapshot s \<noteq> None)
   \<and> calculateRainPrediction userLoc tieSnapshot
       = threatMessage \<lparr>stationName = ''A'', timeToReach = 10, distance = 3\<rparr>"
proof -
  have ex: "\<exists>s \<in> set (rainyStations tieSnapshot). stationThreat userLoc tieSnapshot s \<noteq> None"
    by (simp add: tie_facts tie_threats)
  from prediction_names_least_rounded_threat[OF tie_facts(4) ex, of ] obtain s t where
    s: "s \<in> set (rainyStations tieSnapshot)" "stationThreat userLoc tieSnapshot s = Some t"
      "calculateRainPrediction userLoc tieSnapshot = threatMessage t"
    and least: "\<forall>s' \<in> set (rainyStations tieSnapshot). \<forall>u. stationThreat userLoc tieSnapshot s' = Some u \<longrightarrow>
                 timeToReach t < timeToReach u
                 \<or> (timeToReach t = timeToReach u \<and> distance t \<le> distance u)"
    by blast
  from least have "timeToReach t < 10 \<or> (timeToReach t = 10 \<and> distance t \<le> 3)"
    by (simp add: tie_facts tie_threats)
  with s(1,2) have "t = \<lparr>stationName = ''A'', timeToReach = 10, distance = 3\<rparr>"
    by (auto simp add: tie_facts tie_threats)
  with s(3) ex tie_facts(4) show ?thesis by simp
qed

subsection \<open>The 15-minute test in double precision\<close>


























subsection \<open>The acquisition policy\<close>

lemma list_ex_significant: "significantRain m \<longleftrightarrow> (\<exists>v \<in> snd ` set m. 1 \<le> v)"
  by (simp add: significantRain_def list_ex_iff)

lemma assign_values: "snd ` set (assign k v m) \<subseteq> insert v (snd ` set m)"
  by (induction m) auto

lemma foldl_assign_values:
  "snd ` set (foldl (\<lambda>m item. assign (stationId item) (itemValue item) m) m0 its)
     \<subseteq> snd ` set m0 \<union> itemValue ` set its"
proof (induction its arbitrary: m0)
  case Nil
  then show ?case by simp
next
  case (Cons a its)
  show ?case
    using Cons.IH[of "assign (stationId a) (itemValue a) m0"] assign_values[of "stationId a" "itemValue a" m0]
    by auto
qed

lemma latestReadingMap_values:
  "snd ` set (latestReadingMap rs) \<subseteq> (case rs of [] \<Rightarrow> {} | latest # _ \<Rightarrow> itemValue ` set (items latest))"
  using foldl_assign_values[of "[]"]
  by (auto simp add: latestReadingMap_def split: list.splits)

lemma dry_not_significant:
  assumes "\<forall>item \<in> (case rs of [] \<Rightarrow> {} | latest # _ \<Rightarrow> set (items latest)). itemValue item < 1"
  shows "\<not> significantRain (latestReadingMap rs)"
proof
  assume "significantRain (latestReadingMap rs)"
  then obtain v where v: "v \<in> snd ` set (latestReadingMap rs)" "1 \<le> v"
    unfolding list_ex_significant by blast
  with latestReadingMap_values[of rs] assms show False
    by (cases rs) fastforce+
qed

text \<open>The cycle on a cache miss, its dry branch, and the requests it sends.\<close>

lemma fetchWeatherData_miss:
  assumes "forceRefresh \<or> fst (getCachedData (clock w) (localStorage w)) = None"
  shows "fetchWeatherData forceRefresh userLocation config env w =
     (let w0 = (if forceRefresh then w else w\<lparr>localStorage := snd (getCachedData (clock w) (localStorage w))\<rparr>) in
      case acquire userLocation config env w0 of
                (Inr combinedData, w1) \<Rightarrow> (Inr combinedData, w1)
              | (Inl (JsError message), w1) \<Rightarrow>
                  (Inl (''Could not retrieve weather data: '' @ message), w1)
              | (Inl NonError, w1) \<Rightarrow>
                  (Inl ''An unknown error occurred while fetching weather data.'', w1))"
  using assms
  by (auto simp add: fetchWeatherData_def Let_def split: prod.splits)

lemma acquire_dry:
  assumes "upstream env rainfall = Resolved r" "code r = 0" "data r = Some d"
    and "\<not> significantRain (latestReadingMap (readings d))"
  shows "acquire userLocation config env w0 =
           finish userLocation config env d None None (latestReadingMap (readings d)) [] [] [] False
             (w0\<lparr>clock := clock w0 + int (latency env rainfall), requests := requests w0 @ [rainfall]\<rparr>)"
  using assms by (simp add: acquire_def fetch_def checked_def Let_def)

lemma finish_fields:
  "finish userLocation config env d None None rm [] [] [] sig w = (res, w') \<Longrightarrow>
     \<exists>s. res = Inr s \<and> significantRainDetected s = sig \<and> windSpeedMap s = [] \<and> windDirectionMap s = []
       \<and> windVectors s = [] \<and> requests w' = requests w"
  by (auto simp add: finish_def combine_def Let_def onlyNearby_def)

lemma requests_acquire:
  assumes "upstream env rainfall = Resolved r" "code r = 0" "data r = Some d"
  shows "requests (snd (acquire userLocation config env w0)) =
           requests w0 @ [rainfall] @
             (if significantRain (latestReadingMap (readings d)) then [wind_speed, wind_direction] else [])"
  using assms
  by (auto simp add: acquire_def fetch_def checked_def Let_def fetchWind_def finish_def
      split: fetch_outcome.splits sum.splits prod.splits option.splits)

text \<open>A cycle that throws leaves the storage as it found it after the cache read.\<close>

lemma acquire_storage_on_error:
  "acquire userLocation config env w0 = (Inl e, w1) \<Longrightarrow> localStorage w1 = localStorage w0"
  by (auto simp add: acquire_def fetch_def fetchWind_def finish_def Let_def
      split: fetch_outcome.splits sum.splits prod.splits if_splits)

lemma acquire_rain_fails:
  assumes "upstream env rainfall = Resolved r" "code r \<noteq> 0"
  shows "fst (acquire userLocation config env w0)
           = Inl (JsError (orElse (errorMsg r) ''Rainfall API returned an error without a message.''))"
  using assms by (simp add: acquire_def fetch_def checked_def)

lemma acquire_speed_fails:
  assumes "upstream env rainfall = Resolved r" "code r = 0" "data r = Some d"
    and "significantRain (latestReadingMap (readings d))"
    and "upstream env wind_speed = Resolved rs" "upstream env wind_direction = Resolved rd"
    and "code rs \<noteq> 0"
  shows "fst (acquire userLocation config env w0)
           = Inl (JsError (orElse (errorMsg rs) ''Wind speed API returned an error without a message.''))"
  using assms by (simp add: acquire_def fetch_def fetchWind_def checked_def Let_def)

lemma acquire_dir_fails:
  assumes "upstream env rainfall = Resolved r" "code r = 0" "data r = Some d"
    and "significantRain (latestReadingMap (readings d))"
    and "upstream env wind_speed = Resolved rs" "upstream env wind_direction = Resolved rd"
    and "code rs = 0" "data rs = Some ds" "code rd \<noteq> 0"
  shows "fst (acquire userLocation config env w0)
           = Inl (JsError (orElse (errorMsg rd) ''Wind direction API returned an error without a message.''))"
  using assms by (simp add: acquire_def fetch_def fetchWind_def checked_def Let_def)

lemma miss_storage:
  assumes "fst (getCachedData now st) = None"
  shows "snd (getCachedData now st) = st\<lparr>weatherDataCache := None\<rparr>"
  using assms by (auto simp add: getCachedData_def split: option.splits stored.splits if_splits)

lemma fetchWeatherData_error:
  assumes miss: "forceRefresh \<or> fst (getCachedData (clock w) (localStorage w)) = None"
    and "fst (acquire userLocation config env
           (if forceRefresh then w
            else w\<lparr>localStorage := snd (getCachedData (clock w) (localStorage w))\<rparr>)) = Inl (JsError m)"
  shows "fst (fetchWeatherData forceRefresh userLocation config env w)
           = Inl (''Could not retrieve weather data: '' @ m)
         \<and> localStorage (snd (fetchWeatherData forceRefresh userLocation config env w))
           = (if forceRefresh then localStorage w else (localStorage w)\<lparr>weatherDataCache := None\<rparr>)"
proof -
  let ?w0 = "if forceRefresh then w
             else w\<lparr>localStorage := snd (getCachedData (clock w) (localStorage w))\<rparr>"
  obtain w1 where a: "acquire userLocation config env ?w0 = (Inl (JsError m), w1)"
    using assms(2) by (cases "acquire userLocation config env ?w0") auto
  have st: "localStorage w1 = localStorage ?w0"
    using acquire_storage_on_error[OF a] .
  have "localStorage ?w0 = (if forceRefresh then localStorage w else (localStorage w)\<lparr>weatherDataCache := None\<rparr>)"
    using miss by (auto simp add: miss_storage)
  with st show ?thesis
    using fetchWeatherData_miss[OF miss, of userLocation config env] a
    by (simp add: Let_def)
qed

text \<open>The sample feeds and worlds.\<close>

lemma feeds_simps:
  "upstream (feeds a b c) rainfall = Resolved a"
  "upstream (feeds a b c) wind_speed = Resolved b"
  "upstream (feeds a b c) wind_direction = Resolved c"
  by (simp_all add: feeds_def)

lemma feedResponse_simps:
  "code (feedResponse c msg vals unit) = c"
  "errorMsg (feedResponse c msg vals unit) = msg"
  "data (feedResponse c msg vals unit) = Some (feedData vals unit)"
  by (simp_all add: feedResponse_def)

lemma sample_feeds:
  "upstream dryEnv rainfall = Resolved (feedResponse 0 None [(''S1'', 0), (''S2'', 0.4)] ''mm'')"
  "upstream rainyEnv rainfall = Resolved (feedResponse 0 None [(''S1'', 5), (''S2'', 0.4)] ''mm'')"
  by (simp_all add: dryEnv_def rainyEnv_def feeds_simps)

lemma failing_feeds:
  "upstream failingEnv rainfall = Resolved (feedResponse 429 (Some ''Too many requests'') [] ''mm'')"
  "upstream windFailingEnv rainfall = Resolved (feedResponse 0 None [(''S1'', 5), (''S2'', 0.4)] ''mm'')"
  "upstream windFailingEnv wind_speed = Resolved windOk"
  "upstream windFailingEnv wind_direction
     = Resolved (feedResponse 500 (Some ''Internal error'') [] ''degrees'')"
  "upstream speedFailingEnv rainfall = Resolved (feedResponse 0 None [(''S1'', 5), (''S2'', 0.4)] ''mm'')"
  "upstream speedFailingEnv wind_speed = Resolved (feedResponse 503 None [] ''knots'')"
  "upstream speedFailingEnv wind_direction = Resolved windOk"
  by (simp_all add: failingEnv_def windFailingEnv_def speedFailingEnv_def feeds_simps)

lemma fresh_miss: "fst (getCachedData (clock freshWorld) (localStorage freshWorld)) = None"
  by (simp add: getCachedData_def freshWorld_def emptyStorage_def)

lemma stale_miss: "fst (getCachedData (clock staleWorld) (localStorage staleWorld)) = None"
  by (simp add: getCachedData_def staleWorld_def)

lemma rainy_batch:
  "\<exists>entry \<in> set (latestReadingMap (readings (feedData [(''S1'', 5), (''S2'', 0.4)] ''mm''))).
     1 \<le> snd entry"
  by (simp add: latestReadingMap_def feedData_def)

text \<open>
  Claim C2: on a cycle that reaches the feeds (a forced refresh or a cache miss) and gets
  a successful rainfall answer, a latest batch in which every value is below 1 mm gives a
  snapshot whose significant-rain flag is false and whose wind-speed, wind-direction and
  wind-vector maps are empty, and the only request sent is the rainfall one. In general
  the two wind requests are sent, after the rainfall one, exactly when some station's
  rainfall in the latest batch is at least 1 mm.
\<close>

theorem dry_batch_fetches_no_wind:
  assumes miss: "forceRefresh \<or> fst (getCachedData (clock w) (localStorage w)) = None"
    and rain: "upstream env rainfall = Resolved r" "code r = 0" "data r = Some d"
  shows "((\<forall>item \<in> (case readings d of [] \<Rightarrow> {} | latest # _ \<Rightarrow> set (items latest)).
             itemValue item < 1) \<longrightarrow>
          (\<exists>s. fst (fetchWeatherData forceRefresh userLocation config env w) = Inr s
              \<and> \<not> significantRainDetected s
              \<and> windSpeedMap s = [] \<and> windDirectionMap s = [] \<and> windVectors s = []
              \<and> requests (snd (fetchWeatherData forceRefresh userLocation config env w))
                  = requests w @ [rainfall]))
       \<and> requests (snd (fetchWeatherData forceRefresh userLocation config env w))
           = requests w @ [rainfall] @
               (if \<exists>entry \<in> set (latestReadingMap (readings d)). 1 \<le> snd entry
                then [wind_speed, wind_direction] else [])"
proof -
  let ?w0 = "if forceRefresh then w
             else w\<lparr>localStorage := snd (getCachedData (clock w) (localStorage w))\<rparr>"
  have rq: "requests ?w0 = requests w" by simp
  have f: "fetchWeatherData forceRefresh userLocation config env w =
      (case acquire userLocation config env ?w0 of
                (Inr combinedData, w1) \<Rightarrow> (Inr combinedData, w1)
              | (Inl (JsError message), w1) \<Rightarrow>
                  (Inl (''Could not retrieve weather data: '' @ message), w1)
              | (Inl NonError, w1) \<Rightarrow>
                  (Inl ''An unknown error occurred while fetching weather data.'', w1))"
    using fetchWeatherData_miss[OF miss] by (simp add: Let_def)
  have snd_f: "snd (fetchWeatherData forceRefresh userLocation config env w)
                 = snd (acquire userLocation config env ?w0)"
    unfolding f by (simp split: prod.splits sum.splits thrown.splits)
  have sig: "significantRain (latestReadingMap (readings d))
               \<longleftrightarrow> (\<exists>entry \<in> set (latestReadingMap (readings d)). 1 \<le> snd entry)"
    by (auto simp add: list_ex_significant)
  have second: "requests (snd (fetchWeatherData forceRefresh userLocation config env w))
           = requests w @ [rainfall] @
               (if \<exists>entry \<in> set (latestReadingMap (readings d)). 1 \<le> snd entry
                then [wind_speed, wind_direction] else [])"
    unfolding snd_f requests_acquire[OF rain] rq sig ..
  have first: "\<exists>s. fst (fetchWeatherData forceRefresh userLocation config env w) = Inr s
              \<and> \<not> significantRainDetected s
              \<and> windSpeedMap s = [] \<and> windDirectionMap s = [] \<and> windVectors s = []
              \<and> requests (snd (fetchWeatherData forceRefresh userLocation config env w))
                  = requests w @ [rainfall]"
    if dry: "\<forall>item \<in> (case readings d of [] \<Rightarrow> {} | latest # _ \<Rightarrow> set (items latest)).
             itemValue item < 1"
  proof -
    have ns: "\<not> significantRain (latestReadingMap (readings d))"
      using dry by (rule dry_not_significant)
    obtain res w' where fin: "acquire userLocation config env ?w0 = (res, w')"
      by (cases "acquire userLocation config env ?w0")
    from fin[unfolded acquire_dry[OF rain ns]] finish_fields
    obtain s where s: "res = Inr s" "significantRainDetected s = False" "windSpeedMap s = []"
      "windDirectionMap s = []" "windVectors s = []"
      by blast
    have "fst (fetchWeatherData forceRefresh userLocation config env w) = Inr s"
      unfolding f fin s(1) by simp
    moreover have "requests (snd (fetchWeatherData forceRefresh userLocation config env w))
                  = requests w @ [rainfall]"
      using second ns sig by simp
    ultimately show ?thesis using s by blast
  qed
  from first second show ?thesis by blast
qed

text \<open>
  With the dry feed the cycle sends the rainfall request only; with 5 mm at one station it
  sends all three.
\<close>

theorem dry_batch_fetches_no_wind_witness:
  "fst (getCachedData (clock freshWorld) (localStorage freshWorld)) = None
   \<and> (\<exists>s. fst (fetchWeatherData False (Some userLoc) DEFAULT_CONFIG dryEnv freshWorld) = Inr s
          \<and> \<not> significantRainDetected s
          \<and> windSpeedMap s = [] \<and> windDirectionMap s = [] \<and> windVectors s = [])
   \<and> requests (snd (fetchWeatherData False (Some userLoc) DEFAULT_CONFIG dryEnv freshWorld))
       = [rainfall]
   \<and> requests (snd (fetchWeatherData False (Some userLoc) DEFAULT_CONFIG rainyEnv freshWorld))
       = [rainfall, wind_speed, wind_direction]"
proof -
  have m: "False \<or> fst (getCachedData (clock freshWorld) (localStorage freshWorld)) = None"
    using fresh_miss by simp
  have rq: "requests freshWorld = []" by (simp add: freshWorld_def)
  have dryBatch: "\<forall>item \<in> (case readings (feedData [(''S1'', 0), (''S2'', 0.4)] ''mm'') of
                             [] \<Rightarrow> {} | latest # _ \<Rightarrow> set (items latest)). itemValue item < 1"
    by (simp add: feedData_def)
  have rainyMap: "\<exists>entry \<in> set (latestReadingMap
                     (readings (feedData [(''S1'', 5), (''S2'', 0.4)] ''mm''))). 1 \<le> snd entry"
    by (simp add: latestReadingMap_def feedData_def)
  note instDry = dry_batch_fetches_no_wind[OF m sample_feeds(1) feedResponse_simps(1) feedResponse_simps(3),
      of "Some userLoc" DEFAULT_CONFIG, unfolded rq append_Nil]
  from instDry dryBatch
  have dry: "\<exists>s. fst (fetchWeatherData False (Some userLoc) DEFAULT_CONFIG dryEnv freshWorld) = Inr s
          \<and> \<not> significantRainDetected s
          \<and> windSpeedMap s = [] \<and> windDirectionMap s = [] \<and> windVectors s = []
          \<and> requests (snd (fetchWeatherData False (Some userLoc) DEFAULT_CONFIG dryEnv freshWorld))
              = [rainfall]"
    by blast
  note instRainy = dry_batch_fetches_no_wind[OF m sample_feeds(2) feedResponse_simps(1) feedResponse_simps(3),
      of "Some userLoc" DEFAULT_CONFIG, unfolded rq append_Nil, THEN conjunct2]
  have "requests (snd (fetchWeatherData False (Some userLoc) DEFAULT_CONFIG rainyEnv freshWorld))
       = [rainfall] @ [wind_speed, wind_direction]"
    using instRainy rainyMap by (simp only: if_P)
  with dry fresh_miss show ?thesis by auto
qed

text \<open>
  Claim C7, as stated, fails in its last part: the cache slot can change in a failed
  cycle. When no refresh is forced the cycle starts with the cache read, which removes an
  expired entry; the rainfall feed then answers with status 429, the cycle fails with the
  message of the feed, and the slot that held the expired entry is empty.
\<close>

theorem failed_cycle_evicts_expired_counterexample:
  "fst (fetchWeatherData False (Some userLoc) DEFAULT_CONFIG failingEnv staleWorld)
     = Inl ''Could not retrieve weather data: Too many requests''
   \<and> weatherDataCache (localStorage staleWorld)
     = Some (Stored \<lparr>expiry = 7200000, cached = drySnapshot\<rparr>)
   \<and> weatherDataCache
       (localStorage (snd (fetchWeatherData False (Some userLoc) DEFAULT_CONFIG failingEnv staleWorld)))
     = None"
proof -
  have m: "False \<or> fst (getCachedData (clock staleWorld) (localStorage staleWorld)) = None"
    using stale_miss by simp
  have "code (feedResponse 429 (Some ''Too many requests'') [] ''mm'') \<noteq> 0"
    by (simp add: feedResponse_simps)
  from fetchWeatherData_error[OF m acquire_rain_fails[OF failing_feeds(1) this]]
  show ?thesis
    by (simp add: orElse_def feedResponse_simps staleWorld_def)
qed

text \<open>
  Claim C7, amended: on a cycle that reaches the feeds, whenever the rainfall feed answers
  with a non-zero status code, or, after a successful rainfall answer with significant
  rain and with both wind feeds answering, the wind-speed feed does, or else the
  wind-direction feed does, \<^verbatim>\<open>fetchWeatherData\<close> fails with the single error
  \<open>Could not retrieve weather data: m\<close>, where \<open>m\<close> is the \<^verbatim>\<open>errorMsg\<close> of that feed (a
  fixed text when it is missing or empty). No snapshot is written: the storage is
  untouched on a forced refresh, and otherwise it is as the initial cache read left it,
  the weather slot empty and the wind-vector slot untouched.
\<close>

theorem upstream_failure_reported_nothing_cached:
  assumes miss: "forceRefresh \<or> fst (getCachedData (clock w) (localStorage w)) = None"
    and rain: "upstream env rainfall = Resolved r"
  shows "(code r \<noteq> 0 \<longrightarrow>
            fst (fetchWeatherData forceRefresh userLocation config env w)
              = Inl (''Could not retrieve weather data: ''
                     @ (case errorMsg r of
                          Some m \<Rightarrow> if m = [] then ''Rainfall API returned an error without a message.'' else m
                        | None \<Rightarrow> ''Rainfall API returned an error without a message.''))
            \<and> localStorage (snd (fetchWeatherData forceRefresh userLocation config env w))
              = (if forceRefresh then localStorage w
                 else (localStorage w)\<lparr>weatherDataCache := None\<rparr>))
       \<and> (code r = 0 \<and> data r = Some d
            \<and> (\<exists>entry \<in> set (latestReadingMap (readings d)). 1 \<le> snd entry)
            \<and> upstream env wind_speed = Resolved rs \<and> upstream env wind_direction = Resolved rd
            \<and> code rs \<noteq> 0 \<longrightarrow>
            fst (fetchWeatherData forceRefresh userLocation config env w)
              = Inl (''Could not retrieve weather data: ''
                     @ (case errorMsg rs of
                          Some m \<Rightarrow> if m = [] then ''Wind speed API returned an error without a message.'' else m
                        | None \<Rightarrow> ''Wind speed API returned an error without a message.''))
            \<and> localStorage (snd (fetchWeatherData forceRefresh userLocation config env w))
              = (if forceRefresh then localStorage w
                 else (localStorage w)\<lparr>weatherDataCache := None\<rparr>))
       \<and> (code r = 0 \<and> data r = Some d
            \<and> (\<exists>entry \<in> set (latestReadingMap (readings d)). 1 \<le> snd entry)
            \<and> upstream env wind_speed = Resolved rs \<and> upstream env wind_direction = Resolved rd
            \<and> code rs = 0 \<and> data rs = Some ds \<and> code rd \<noteq> 0 \<longrightarrow>
            fst (fetchWeatherData forceRefresh userLocation config env w)
              = Inl (''Could not retrieve weather data: ''
                     @ (case errorMsg rd of
                          Some m \<Rightarrow> if m = [] then ''Wind direction API returned an error without a message.'' else m
                        | None \<Rightarrow> ''Wind direction API returned an error without a message.''))
            \<and> localStorage (snd (fetchWeatherData forceRefresh userLocation config env w))
              = (if forceRefresh then localStorage w
                 else (localStorage w)\<lparr>weatherDataCache := None\<rparr>))"
proof -
  have sig: "significantRain (latestReadingMap (readings d))
               \<longleftrightarrow> (\<exists>entry \<in> set (latestReadingMap (readings d)). 1 \<le> snd entry)"
    by (auto simp add: list_ex_significant)
  show ?thesis
  proof (intro conjI impI; (elim conjE)?)
    assume "code r \<noteq> 0"
    from fetchWeatherData_error[OF miss acquire_rain_fails[OF rain this]]
    show "fst (fetchWeatherData forceRefresh userLocation config env w)
              = Inl (''Could not retrieve weather data: ''
                     @ (case errorMsg r of
                          Some m \<Rightarrow> if m = [] then ''Rainfall API returned an error without a message.'' else m
                        | None \<Rightarrow> ''Rainfall API returned an error without a message.''))"
      and "localStorage (snd (fetchWeatherData forceRefresh userLocation config env w))
              = (if forceRefresh then localStorage w
                 else (localStorage w)\<lparr>weatherDataCache := None\<rparr>)"
      by (simp_all add: orElse_def)
  next
    assume a: "code r = 0" "data r = Some d"
      "\<exists>entry \<in> set (latestReadingMap (readings d)). 1 \<le> snd entry"
      "upstream env wind_speed = Resolved rs" "upstream env wind_direction = Resolved rd"
      "code rs \<noteq> 0"
    from fetchWeatherData_error[OF miss
        acquire_speed_fails[OF rain a(1,2) a(3)[folded sig] a(4,5,6)]]
    show "fst (fetchWeatherData forceRefresh userLocation config env w)
              = Inl (''Could not retrieve weather data: ''
                     @ (case errorMsg rs of
                          Some m \<Rightarrow> if m = [] then ''Wind speed API returned an error without a message.'' else m
                        | None \<Rightarrow> ''Wind speed API returned an error without a message.''))"
      and "localStorage (snd (fetchWeatherData forceRefresh userLocation config env w))
              = (if forceRefresh then localStorage w
                 else (localStorage w)\<lparr>weatherDataCache := None\<rparr>)"
      by (simp_all add: orElse_def)
  next
    assume a: "code r = 0" "data r = Some d"
      "\<exists>entry \<in> set (latestReadingMap (readings d)). 1 \<le> snd entry"
      "upstream env wind_speed = Resolved rs" "upstream env wind_direction = Resolved rd"
      "code rs = 0" "data rs = Some ds" "code rd \<noteq> 0"
    from fetchWeatherData_error[OF miss
        acquire_dir_fails[OF rain a(1,2) a(3)[folded sig] a(4,5,6,7,8)]]
    show "fst (fetchWeatherData forceRefresh userLocation config env w)
              = Inl (''Could not retrieve weather data: ''
                     @ (case errorMsg rd of
                          Some m \<Rightarrow> if m = [] then ''Wind direction API returned an error without a message.'' else m
                        | None \<Rightarrow> ''Wind direction API returned an error without a message.''))"
      and "localStorage (snd (fetchWeatherData forceRefresh userLocation config env w))
              = (if forceRefresh then localStorage w
                 else (localStorage w)\<lparr>weatherDataCache := None\<rparr>)"
      by (simp_all add: orElse_def)
  qed
qed

text \<open>
  The three cases on the sample feeds: the rainfall feed fails after the read of an
  expired entry; on a forced refresh the wind-speed feed fails without a message, and the
  wind-direction feed fails with one.
\<close>

theorem upstream_failure_witness:
  "fst (getCachedData (clock staleWorld) (localStorage staleWorld)) = None
   \<and> fst (fetchWeatherData False (Some userLoc) DEFAULT_CONFIG failingEnv staleWorld)
       = Inl ''Could not retrieve weather data: Too many requests''
   \<and> localStorage (snd (fetchWeatherData False (Some userLoc) DEFAULT_CONFIG failingEnv staleWorld))
       = emptyStorage
   \<and> fst (fetchWeatherData True (Some userLoc) DEFAULT_CONFIG speedFailingEnv staleWorld)
       = Inl ''Could not retrieve weather data: Wind speed API returned an error without a message.''
   \<and> localStorage (snd (fetchWeatherData True (Some userLoc) DEFAULT_CONFIG speedFailingEnv staleWorld))
       = localStorage staleWorld
   \<and> fst (fetchWeatherData True (Some userLoc) DEFAULT_CONFIG windFailingEnv staleWorld)
       = Inl ''Could not retrieve weather data: Internal error''
   \<and> localStorage (snd (fetchWeatherData True (Some userLoc) DEFAULT_CONFIG windFailingEnv staleWorld))
       = localStorage staleWorld"
proof -
  have m: "False \<or> fst (getCachedData (clock staleWorld) (localStorage staleWorld)) = None"
    using stale_miss by simp
  have evicted: "(localStorage staleWorld)\<lparr>weatherDataCache := None\<rparr> = emptyStorage"
    by (simp add: staleWorld_def emptyStorage_def)
  have one: "fst (fetchWeatherData False (Some userLoc) DEFAULT_CONFIG failingEnv staleWorld)
       = Inl ''Could not retrieve weather data: Too many requests''"
    "localStorage (snd (fetchWeatherData False (Some userLoc) DEFAULT_CONFIG failingEnv staleWorld))
       = emptyStorage"
    using upstream_failure_reported_nothing_cached[OF m failing_feeds(1), of "Some userLoc" DEFAULT_CONFIG, THEN conjunct1]
    by (simp_all add: feedResponse_simps evicted)
  have two: "fst (fetchWeatherData True (Some userLoc) DEFAULT_CONFIG speedFailingEnv staleWorld)
       = Inl ''Could not retrieve weather data: Wind speed API returned an error without a message.''"
    "localStorage (snd (fetchWeatherData True (Some userLoc) DEFAULT_CONFIG speedFailingEnv staleWorld))
       = localStorage staleWorld"
    using upstream_failure_reported_nothing_cached[of True staleWorld speedFailingEnv _ "Some userLoc" DEFAULT_CONFIG
        "feedData [(''S1'', 5), (''S2'', 0.4)] ''mm''" "feedResponse 503 None [] ''knots''" windOk,
        OF _ failing_feeds(5), THEN conjunct2, THEN conjunct1]
      rainy_batch failing_feeds(6,7)
    by (simp_all add: feedResponse_simps)
  have three: "fst (fetchWeatherData True (Some userLoc) DEFAULT_CONFIG windFailingEnv staleWorld)
       = Inl ''Could not retrieve weather data: Internal error''"
    "localStorage (snd (fetchWeatherData True (Some userLoc) DEFAULT_CONFIG windFailingEnv staleWorld))
       = localStorage staleWorld"
    using upstream_failure_reported_nothing_cached[of True staleWorld windFailingEnv _ "Some userLoc" DEFAULT_CONFIG
        "feedData [(''S1'', 5), (''S2'', 0.4)] ''mm''" windOk
        "feedResponse 500 (Some ''Internal error'') [] ''degrees''"
        "feedData [(''S1'', 8), (''S2'', 90)] ''knots''",
        OF _ failing_feeds(2), THEN conjunct2, THEN conjunct2]
      rainy_batch failing_feeds(3,4)
    by (simp_all add: feedResponse_simps windOk_def)
  from one two three stale_miss show ?thesis by simp
qed

subsection \<open>The parallel distance engine\<close>


















end
